theory Spec2Isabelle
  imports Main
begin

section \<open>The Turnkey signer for Stacks transactions\<close>

text \<open>
  A shallow embedding of \<^verbatim>\<open>index.ts\<close> and \<^verbatim>\<open>types.ts\<close>. The repository holds two
  revisions of both files: \<^verbatim>\<open>src/index.ts\<close> with \<^verbatim>\<open>src/types.ts\<close>, and
  \<^verbatim>\<open>unnamed/part_000\<close> with \<^verbatim>\<open>unnamed/part_001\<close>. They differ in two functions only,
  \<^verbatim>\<open>validateCompressedPublicKey\<close> (the second revision lower-cases the key) and
  \<^verbatim>\<open>signHash\<close> (the second revision passes the organization on when it is set and
  wraps the call in a try/catch). Those two functions take the revision as their first
  argument; every other function has the same text in both files.
\<close>

datatype revision = Index_ts | Part_000

subsection \<open>Strings of JavaScript\<close>

text \<open>
  A string is a list of UTF-16 code units, and its length is the number of code units.
  A code unit is a number below 65536; nothing below depends on the bound. \<open>ascii\<close>
  writes a string of the source as such a list.
\<close>

type_synonym code_unit = nat

type_synonym jstring = "code_unit list"

definition ascii :: "string \<Rightarrow> jstring" where
  "ascii s = map of_char s"

definition startsWith :: "jstring \<Rightarrow> jstring \<Rightarrow> bool" where
  "startsWith s p = (take (length p) s = p)"

definition slice_from :: "nat \<Rightarrow> jstring \<Rightarrow> jstring" where
  "slice_from n s = drop n s"

definition slice :: "nat \<Rightarrow> nat \<Rightarrow> jstring \<Rightarrow> jstring" where
  "slice a b s = drop a (take b s)"

text \<open>
  \<^verbatim>\<open>toLowerCase\<close>. On a string of ASCII code units only, the letters A to Z move up by
  32 and every other code unit stays. On any other string the result is given by the
  case tables of Unicode, which are no part of the repository and which do not keep the
  length (U+0130 becomes the two code units U+0069 U+0307): there the model takes
  \<^verbatim>\<open>String.prototype.toLowerCase\<close> itself as the parameter \<open>unicode_lower\<close>.
\<close>

definition isAscii :: "code_unit \<Rightarrow> bool" where
  "isAscii u = (u < 128)"

definition toLowerCase_ascii :: "code_unit \<Rightarrow> code_unit" where
  "toLowerCase_ascii u = (if 65 \<le> u \<and> u \<le> 90 then u + 32 else u)"

definition toLowerCase :: "(jstring \<Rightarrow> jstring) \<Rightarrow> jstring \<Rightarrow> jstring" where
  "toLowerCase unicode_lower s =
     (if list_all isAscii s then map toLowerCase_ascii s else unicode_lower s)"

text \<open>\<^verbatim>\<open>padStart(n, "0")\<close> with a filler of one code unit.\<close>

definition padStart :: "nat \<Rightarrow> code_unit \<Rightarrow> jstring \<Rightarrow> jstring" where
  "padStart n c s = replicate (n - length s) c @ s"

text \<open>\<^verbatim>\<open>message.includes(sub)\<close>: \<open>sub\<close> occurs in \<open>s\<close> as a contiguous run.\<close>

fun includes_str :: "jstring \<Rightarrow> jstring \<Rightarrow> bool" where
  "includes_str [] sub = (sub = [])"
| "includes_str (c # s) sub = (startsWith (c # s) sub \<or> includes_str s sub)"

subsection \<open>parseInt with radix 16\<close>

text \<open>
  \<^verbatim>\<open>parseInt(v, 16)\<close> trims leading white space and line terminators, reads an optional
  sign, skips an optional \<^verbatim>\<open>0x\<close> or \<^verbatim>\<open>0X\<close>, and reads hexadecimal digits up to the first
  code unit that is none; with no digit the result is NaN, here \<open>None\<close>. The number is
  kept as an unbounded integer: the caller only asks whether it is 0 or 1, and rounding
  a longer digit string to a double never produces either. Minus zero is zero.
\<close>

definition isWhiteSpace :: "code_unit \<Rightarrow> bool" where
  "isWhiteSpace u =
     (u \<in> {9, 10, 11, 12, 13, 32, 160, 5760, 8232, 8233, 8239, 8287, 12288, 65279}
      \<or> (8192 \<le> u \<and> u \<le> 8202))"

definition hexDigitValue :: "code_unit \<Rightarrow> nat option" where
  "hexDigitValue u =
     (if 48 \<le> u \<and> u \<le> 57 then Some (u - 48)
      else if 97 \<le> u \<and> u \<le> 102 then Some (u - 87)
      else if 65 \<le> u \<and> u \<le> 70 then Some (u - 55)
      else None)"

definition isHexDigit :: "code_unit \<Rightarrow> bool" where
  "isHexDigit u = (hexDigitValue u \<noteq> None)"

definition hexValue :: "jstring \<Rightarrow> nat" where
  "hexValue z = foldl (\<lambda>a u. 16 * a + the (hexDigitValue u)) 0 z"

definition parseInt16 :: "jstring \<Rightarrow> int option" where
  "parseInt16 v =
     (let s = dropWhile isWhiteSpace v;
          sign = (if startsWith s (ascii ''-'') then - 1 else 1 :: int);
          s1 = (if startsWith s (ascii ''+'') \<or> startsWith s (ascii ''-'') then drop 1 s else s);
          s2 = (if startsWith s1 (ascii ''0x'') \<or> startsWith s1 (ascii ''0X'') then drop 2 s1
                else s1);
          z = takeWhile isHexDigit s2
      in if z = [] then None else Some (sign * int (hexValue z)))"

text \<open>\<^verbatim>\<open>Number.prototype.toString(16)\<close> on an integer.\<close>

definition hexDigitChar :: "nat \<Rightarrow> code_unit" where
  "hexDigitChar d = (if d < 10 then 48 + d else 87 + d)"

fun hexNat :: "nat \<Rightarrow> jstring" where
  "hexNat n = (if n < 16 then [hexDigitChar n] else hexNat (n div 16) @ [hexDigitChar (n mod 16)])"

definition toString16 :: "int \<Rightarrow> jstring" where
  "toString16 i = (if i < 0 then ascii ''-'' @ hexNat (nat (- i)) else hexNat (nat i))"

subsection \<open>Thrown values\<close>

text \<open>
  What a collaborator (the Turnkey client, \<^verbatim>\<open>fetch\<close>, the Stacks library) may throw or
  reject with: an \<^verbatim>\<open>Error\<close> instance with its message, or any other value with its
  \<^verbatim>\<open>String(...)\<close> form.
\<close>

datatype rejection = ErrorInstance jstring | NonError jstring

text \<open>\<^verbatim>\<open>error instanceof Error ? error.message : String(error)\<close>\<close>

fun message_of :: "rejection \<Rightarrow> jstring" where
  "message_of (ErrorInstance m) = m"
| "message_of (NonError s) = s"

text \<open>
  The errors of the signer. Each \<^verbatim>\<open>throw new Error(...)\<close> of the source is a constructor
  that carries the values its message interpolates; the names are those of the
  specification's taxonomy.
  \<^item> \<open>NotAString\<close>: "Public key must be a string"
  \<^item> \<open>InvalidKeyFormat n\<close>: "Invalid public key length: expected 66 hex chars (33 bytes
    compressed), got n"
  \<^item> \<open>InvalidKeyPrefix p\<close>: "Invalid public key prefix: expected '02' or '03'
    (compressed), got 'p'"
  \<^item> \<open>InvalidRecoveryByte v\<close>: "Invalid recovery byte value: v (expected 0 or 1)"
  \<^item> \<open>InvalidRecipient r\<close>: "Invalid recipient Stacks address: r"
  \<^item> \<open>InvalidAmount\<close>: "Amount must be greater than 0"
  \<^item> \<open>InvalidSignatureLength n\<close>: "Invalid signature length: expected 130 hex chars
    (65 bytes), got n"
  \<^item> \<open>NonceFetchFailed status statusText\<close>: "Failed to fetch nonce: status statusText"
  \<^item> \<open>NullBodyTypeError\<close>: the TypeError of reading a property of \<^verbatim>\<open>null\<close>
  \<^item> \<open>BigIntRangeError\<close>: the RangeError of \<^verbatim>\<open>BigInt(x)\<close> on a number that is not an
    integer
  \<^item> \<open>SigningKeyNotFound key org message\<close>: "Turnkey could not find a signing key."
    followed by the key, the organization (or a note that none is set) and the original
    message
  \<^item> \<open>Thrown e\<close>: a value thrown by a collaborator, passed on as it is.
\<close>

datatype failure =
    NotAString
  | InvalidKeyFormat nat
  | InvalidKeyPrefix jstring
  | InvalidRecoveryByte jstring
  | InvalidRecipient jstring
  | InvalidAmount
  | InvalidSignatureLength nat
  | NonceFetchFailed nat jstring
  | NullBodyTypeError
  | BigIntRangeError
  | SigningKeyNotFound jstring "jstring option" jstring
  | Thrown rejection

subsection \<open>validateCompressedPublicKey\<close>

text \<open>
  The argument is declared \<^verbatim>\<open>string\<close>; the function still tests \<^verbatim>\<open>typeof\<close> at run time,
  so the model's argument is a string or something else.
\<close>

datatype js_value = Str jstring | NonString

text \<open>\<^verbatim>\<open>pubKeyHex.startsWith("0x") ? pubKeyHex.slice(2) : pubKeyHex\<close>\<close>

definition strip_0x :: "jstring \<Rightarrow> jstring" where
  "strip_0x pubKeyHex =
     (if startsWith pubKeyHex (ascii ''0x'') then slice_from 2 pubKeyHex else pubKeyHex)"

text \<open>
  The constant \<^verbatim>\<open>cleaned\<close> of the source: the stripped key in \<^verbatim>\<open>src/index.ts\<close>, the
  stripped and then lower-cased key in \<^verbatim>\<open>part_000\<close>. The length and the prefix are
  tested on it.
\<close>

definition cleaned_key :: "revision \<Rightarrow> (jstring \<Rightarrow> jstring) \<Rightarrow> jstring \<Rightarrow> jstring" where
  "cleaned_key rvn unicode_lower pubKeyHex =
     (case rvn of
        Index_ts \<Rightarrow> strip_0x pubKeyHex
      | Part_000 \<Rightarrow> toLowerCase unicode_lower (strip_0x pubKeyHex))"

fun validateCompressedPublicKey ::
  "revision \<Rightarrow> (jstring \<Rightarrow> jstring) \<Rightarrow> js_value \<Rightarrow> failure + jstring" where
  "validateCompressedPublicKey rvn unicode_lower NonString = Inl NotAString"
| "validateCompressedPublicKey rvn unicode_lower (Str pubKeyHex) =
     (let cleaned = cleaned_key rvn unicode_lower pubKeyHex
      in if length cleaned \<noteq> 66 then Inl (InvalidKeyFormat (length cleaned))
         else let prefix = slice 0 2 cleaned
              in if prefix \<noteq> ascii ''02'' \<and> prefix \<noteq> ascii ''03''
                 then Inl (InvalidKeyPrefix prefix)
                 else Inr cleaned)"

text \<open>
  The messages of the validator's errors, from the string and the template literals of
  the source. All three are plain \<^verbatim>\<open>Error\<close> objects, so the message is all a caller has
  to tell them apart. \<open>decimal\<close> is the text of a length in a template literal; 39
  is the apostrophe.
\<close>

fun decimal :: "nat \<Rightarrow> jstring" where
  "decimal n = (if n < 10 then [48 + n] else decimal (n div 10) @ [48 + n mod 10])"

fun validator_message :: "failure \<Rightarrow> jstring option" where
  "validator_message NotAString = Some (ascii ''Public key must be a string'')"
| "validator_message (InvalidKeyFormat n) =
     Some (ascii ''Invalid public key length: expected 66 hex chars (33 bytes compressed), got ''
           @ decimal n)"
| "validator_message (InvalidKeyPrefix p) =
     Some (ascii ''Invalid public key prefix: expected '' @ [39] @ ascii ''02'' @ [39]
           @ ascii '' or '' @ [39] @ ascii ''03'' @ [39] @ ascii '' (compressed), got ''
           @ [39] @ p @ [39])"
| "validator_message e = None"

subsection \<open>normalizeRecoveryByte\<close>

definition normalizeRecoveryByte :: "jstring \<Rightarrow> failure + jstring" where
  "normalizeRecoveryByte v =
     (case parseInt16 v of
        None \<Rightarrow> Inl (InvalidRecoveryByte v)
      | Some parsed \<Rightarrow>
          if parsed \<noteq> 0 \<and> parsed \<noteq> 1 then Inl (InvalidRecoveryByte v)
          else Inr (padStart 2 48 (toString16 parsed)))"

subsection \<open>The types of types.ts\<close>

datatype StacksNetworkType = Testnet | Mainnet

text \<open>
  The parameter of \<^verbatim>\<open>signRawPayload\<close>. The two literal types are kept as strings, so that
  the value sent is visible. \<open>organizationId\<close> is declared in the second revision
  only; the first never sets it.
\<close>

record signRawPayload_params =
  organizationId :: "jstring option"
  signWith :: jstring
  payload :: jstring
  encoding :: jstring
  hashFunction :: jstring

text \<open>What \<^verbatim>\<open>signRawPayload\<close> resolves to: the fields \<^verbatim>\<open>v\<close>, \<^verbatim>\<open>r\<close> and \<^verbatim>\<open>s\<close>.\<close>

record raw_signature =
  sig_v :: jstring
  sig_r :: jstring
  sig_s :: jstring

text \<open>The client is its one method; a rejected promise is \<open>Inl\<close>.\<close>

type_synonym TurnkeySignerClient = "signRawPayload_params \<Rightarrow> rejection + raw_signature"

record TurnkeySignerConfig =
  cfg_client :: TurnkeySignerClient
  cfg_organizationId :: "jstring option"
  cfg_publicKey :: js_value
  cfg_network :: "StacksNetworkType option"

record STXTransferParams =
  p_recipient :: jstring
  p_amount :: int
  p_nonce :: "int option"
  p_fee :: "int option"
  p_memo :: "jstring option"
  p_network :: "StacksNetworkType option"

subsection \<open>The Stacks transaction library\<close>

text \<open>
  \<^verbatim>\<open>@stacks/transactions\<close> is a dependency, not code of the repository: its functions
  are parameters of the model, and each may throw. Of a transaction the model keeps the
  fields the signer reads and writes; \<open>'p\<close> stands for all the others and \<open>'sg\<close> for
  the library's message signature.
\<close>

record 'sg SingleSigSpendingCondition =
  sc_fee :: int
  sc_nonce :: int
  sc_signature :: 'sg

record 'sg Authorization =
  authType :: nat
  spendingCondition :: "'sg SingleSigSpendingCondition"

record ('sg, 'p) StacksTransactionWire =
  auth :: "'sg Authorization"
  tx_rest :: 'p

text \<open>The options object handed to \<^verbatim>\<open>makeUnsignedSTXTokenTransfer\<close>.\<close>

record transfer_options =
  o_recipient :: jstring
  o_amount :: int
  o_publicKey :: jstring
  o_nonce :: int
  o_fee :: int
  o_network :: StacksNetworkType
  o_memo :: "jstring option"

record ('sg, 'p) stacks_library =
  validateStacksAddress :: "jstring \<Rightarrow> bool"
  publicKeyToAddress :: "jstring \<Rightarrow> StacksNetworkType \<Rightarrow> rejection + jstring"
  makeUnsignedSTXTokenTransfer :: "transfer_options \<Rightarrow> rejection + ('sg, 'p) StacksTransactionWire"
  transactionSigner_sigHash :: "('sg, 'p) StacksTransactionWire \<Rightarrow> rejection + jstring"
  sigHashPreSign :: "jstring \<Rightarrow> nat \<Rightarrow> int \<Rightarrow> int \<Rightarrow> rejection + jstring"
  createMessageSignature :: "jstring \<Rightarrow> rejection + 'sg"

subsection \<open>The nonce service\<close>

text \<open>
  A number of JavaScript, as far as \<^verbatim>\<open>BigInt(x)\<close> tells: an integer converts, any other
  number is a RangeError.
\<close>

datatype js_number = Integer int | NonInteger

text \<open>
  What \<^verbatim>\<open>data.possible_next_nonce\<close> reads from a parsed body that is not \<^verbatim>\<open>null\<close>:
  \<open>Undefined\<close> when the value has no such property (an object without the key, an
  array, a string, a number, a boolean), otherwise the value of the key: \<^verbatim>\<open>null\<close>, a
  number, or a value of another type, which is given by what \<^verbatim>\<open>BigInt\<close> makes of it (an
  integer, or the error it throws).
\<close>

datatype nonce_field =
    Undefined
  | NullValue
  | NumberValue js_number
  | OtherValue "rejection + int"

text \<open>
  What \<^verbatim>\<open>res.json()\<close> resolves to: \<^verbatim>\<open>null\<close>, or any other JSON value, of which the model
  keeps what the property read returns. The source casts it to
  \<^verbatim>\<open>{ possible_next_nonce?: number }\<close> without a check.
\<close>

datatype json_body = JsonNull | JsonValue nonce_field

text \<open>\<^verbatim>\<open>data.possible_next_nonce\<close>; on \<^verbatim>\<open>null\<close> the read throws.\<close>

fun possible_next_nonce :: "json_body \<Rightarrow> failure + nonce_field" where
  "possible_next_nonce JsonNull = Inl NullBodyTypeError"
| "possible_next_nonce (JsonValue f) = Inr f"

text \<open>
  \<^verbatim>\<open>BigInt(x ?? 0)\<close>: \<^verbatim>\<open>undefined\<close> and \<^verbatim>\<open>null\<close> become 0, an integer converts,
  any other number is a RangeError.
\<close>

fun BigInt_or_zero :: "nonce_field \<Rightarrow> failure + int" where
  "BigInt_or_zero Undefined = Inr 0"
| "BigInt_or_zero NullValue = Inr 0"
| "BigInt_or_zero (NumberValue (Integer i)) = Inr i"
| "BigInt_or_zero (NumberValue NonInteger) = Inl BigIntRangeError"
| "BigInt_or_zero (OtherValue (Inr i)) = Inr i"
| "BigInt_or_zero (OtherValue (Inl e)) = Inl (Thrown e)"

text \<open>A response of \<^verbatim>\<open>fetch\<close>; \<^verbatim>\<open>res.json()\<close> may reject.\<close>

record response =
  status :: nat
  statusText :: jstring
  json :: "rejection + json_body"

text \<open>\<^verbatim>\<open>res.ok\<close>: by the Fetch standard, true exactly for a status from 200 to 299.\<close>

definition ok :: "response \<Rightarrow> bool" where
  "ok res = (200 \<le> status res \<and> status res \<le> 299)"

type_synonym fetch_fn = "jstring \<Rightarrow> rejection + response"

subsection \<open>Calls to the outside\<close>

text \<open>
  Every function that awaits a network call returns, beside its result, the calls it
  made, in order. The two calls are made through \<open>call_fetch\<close> and
  \<open>call_signRawPayload\<close>, which record the argument the collaborator is applied to.
\<close>

datatype event = Fetch jstring | SignRawPayload signRawPayload_params

definition call_fetch :: "fetch_fn \<Rightarrow> jstring \<Rightarrow> event list \<times> (rejection + response)" where
  "call_fetch fetch url = ([Fetch url], fetch url)"

definition call_signRawPayload ::
  "TurnkeySignerClient \<Rightarrow> signRawPayload_params \<Rightarrow> event list \<times> (rejection + raw_signature)" where
  "call_signRawPayload client request = ([SignRawPayload request], client request)"

text \<open>The signing requests among the calls of a run.\<close>

fun signing_requests :: "event list \<Rightarrow> signRawPayload_params list" where
  "signing_requests [] = []"
| "signing_requests (Fetch url # t) = signing_requests t"
| "signing_requests (SignRawPayload request # t) = request # signing_requests t"

subsection \<open>The signer\<close>

definition DEFAULT_FEE :: int where
  "DEFAULT_FEE = 180"

fun API_ENDPOINTS :: "StacksNetworkType \<Rightarrow> jstring" where
  "API_ENDPOINTS Testnet = ascii ''https://api.testnet.hiro.so''"
| "API_ENDPOINTS Mainnet = ascii ''https://api.hiro.so''"

record TurnkeySigner =
  s_organizationId :: "jstring option"
  s_network :: StacksNetworkType
  s_client :: TurnkeySignerClient
  compressedPublicKey :: jstring

text \<open>The constructor.\<close>

definition new_TurnkeySigner ::
  "revision \<Rightarrow> (jstring \<Rightarrow> jstring) \<Rightarrow> TurnkeySignerConfig \<Rightarrow> failure + TurnkeySigner" where
  "new_TurnkeySigner rvn unicode_lower config =
     (case validateCompressedPublicKey rvn unicode_lower (cfg_publicKey config) of
        Inl e \<Rightarrow> Inl e
      | Inr key \<Rightarrow>
          Inr \<lparr> s_organizationId = cfg_organizationId config,
                s_network = (case cfg_network config of None \<Rightarrow> Testnet | Some n \<Rightarrow> n),
                s_client = cfg_client config,
                compressedPublicKey = key \<rparr>)"

definition getAddress ::
  "('sg, 'p) stacks_library \<Rightarrow> TurnkeySigner \<Rightarrow> StacksNetworkType option \<Rightarrow> rejection + jstring" where
  "getAddress lib this network =
     publicKeyToAddress lib (compressedPublicKey this)
       (case network of None \<Rightarrow> s_network this | Some n \<Rightarrow> n)"

definition getPublicKey :: "TurnkeySigner \<Rightarrow> jstring" where
  "getPublicKey this = compressedPublicKey this"

definition getAddressFromPublicKey ::
  "revision \<Rightarrow> (jstring \<Rightarrow> jstring) \<Rightarrow> ('sg, 'p) stacks_library \<Rightarrow> js_value
     \<Rightarrow> StacksNetworkType option \<Rightarrow> failure + jstring" where
  "getAddressFromPublicKey rvn unicode_lower lib publicKey network =
     (case validateCompressedPublicKey rvn unicode_lower publicKey of
        Inl e \<Rightarrow> Inl e
      | Inr cleaned \<Rightarrow>
          (case publicKeyToAddress lib cleaned (case network of None \<Rightarrow> Testnet | Some n \<Rightarrow> n) of
             Inl e \<Rightarrow> Inl (Thrown e)
           | Inr a \<Rightarrow> Inr a))"

definition fetchNonce ::
  "fetch_fn \<Rightarrow> jstring \<Rightarrow> StacksNetworkType \<Rightarrow> event list \<times> (failure + int)" where
  "fetchNonce fetch address network =
     (let baseUrl = API_ENDPOINTS network;
          url = baseUrl @ ascii ''/extended/v1/address/'' @ address @ ascii ''/nonces''
      in case call_fetch fetch url of
           (t, Inl e) \<Rightarrow> (t, Inl (Thrown e))
         | (t, Inr res) \<Rightarrow>
             if \<not> ok res then (t, Inl (NonceFetchFailed (status res) (statusText res)))
             else (case json res of
                     Inl e \<Rightarrow> (t, Inl (Thrown e))
                   | Inr data \<Rightarrow>
                       (case possible_next_nonce data of
                          Inl e \<Rightarrow> (t, Inl e)
                        | Inr field \<Rightarrow> (t, BigInt_or_zero field))))"

text \<open>
  \<^verbatim>\<open>signHash\<close>. \<open>signHash_request\<close> is the object handed to \<^verbatim>\<open>signRawPayload\<close>: in
  \<^verbatim>\<open>src/index.ts\<close> the literal of four fields (\<open>signing_request\<close>); in \<^verbatim>\<open>part_000\<close>
  the same literal, to which the organization is added when it is truthy (set and not
  the empty string).
\<close>

definition signing_request :: "TurnkeySigner \<Rightarrow> jstring \<Rightarrow> signRawPayload_params" where
  "signing_request this hash =
     \<lparr> organizationId = None,
       signWith = compressedPublicKey this,
       payload = ascii ''0x'' @ hash,
       encoding = ascii ''PAYLOAD_ENCODING_HEXADECIMAL'',
       hashFunction = ascii ''HASH_FUNCTION_NO_OP'' \<rparr>"

fun signHash_request :: "revision \<Rightarrow> TurnkeySigner \<Rightarrow> jstring \<Rightarrow> signRawPayload_params" where
  "signHash_request Index_ts this hash = signing_request this hash"
| "signHash_request Part_000 this hash =
     (case s_organizationId this of
        None \<Rightarrow> signing_request this hash
      | Some org \<Rightarrow> if org \<noteq> [] then (signing_request this hash) \<lparr> organizationId := Some org \<rparr>
                    else signing_request this hash)"

text \<open>
  What \<^verbatim>\<open>signHash\<close> throws when the client has rejected with \<open>error\<close>: the error
  itself in \<^verbatim>\<open>src/index.ts\<close>, which has no catch block; the outcome of the catch block
  in \<^verbatim>\<open>part_000\<close>.
\<close>

fun signHash_catch :: "revision \<Rightarrow> TurnkeySigner \<Rightarrow> rejection \<Rightarrow> failure" where
  "signHash_catch Index_ts this error = Thrown error"
| "signHash_catch Part_000 this error =
     (let message = message_of error
      in if includes_str message (ascii ''Could not find any resource to sign with'')
         then SigningKeyNotFound (compressedPublicKey this) (s_organizationId this) message
         else Thrown error)"

definition signHash ::
  "revision \<Rightarrow> TurnkeySigner \<Rightarrow> jstring \<Rightarrow> event list \<times> (failure + raw_signature)" where
  "signHash rvn this hash =
     (case call_signRawPayload (s_client this) (signHash_request rvn this hash) of
        (t, Inl error) \<Rightarrow> (t, Inl (signHash_catch rvn this error))
      | (t, Inr sg) \<Rightarrow> (t, Inr \<lparr> sig_v = sig_v sg, sig_r = sig_r sg, sig_s = sig_s sg \<rparr>))"

record ('sg, 'p) SignedTransactionResult =
  r_transaction :: "('sg, 'p) StacksTransactionWire"
  r_senderAddress :: jstring
  r_nonce :: int
  r_fee :: int

text \<open>
  \<^verbatim>\<open>spendingCondition.signature = createMessageSignature(vrs)\<close> writes one field of the
  transaction in place.
\<close>

definition set_signature ::
  "'sg \<Rightarrow> ('sg, 'p) StacksTransactionWire \<Rightarrow> ('sg, 'p) StacksTransactionWire" where
  "set_signature sg transaction =
     transaction \<lparr> auth := (auth transaction)
       \<lparr> spendingCondition := (spendingCondition (auth transaction)) \<lparr> sc_signature := sg \<rparr> \<rparr> \<rparr>"

text \<open>
  \<^verbatim>\<open>signSTXTransfer\<close> in three steps, in the order of its statements: everything up to
  the pre-sign hash (\<open>signSTXTransfer_build\<close>), the call of \<^verbatim>\<open>signHash\<close>, and the
  assembly of the signature with the return (\<open>signSTXTransfer_attach\<close>). The first
  component of a result lists the network calls made up to the point where the function
  returned or threw.
\<close>

record ('sg, 'p) built =
  b_transaction :: "('sg, 'p) StacksTransactionWire"
  b_senderAddress :: jstring
  b_nonce :: int
  b_txFee :: int
  b_preSignHash :: jstring

definition signSTXTransfer_build ::
  "('sg, 'p) stacks_library \<Rightarrow> fetch_fn \<Rightarrow> TurnkeySigner \<Rightarrow> STXTransferParams
     \<Rightarrow> event list \<times> (failure + ('sg, 'p) built)" where
  "signSTXTransfer_build lib fetch this params =
     (let recipient = p_recipient params;
          amount = p_amount params;
          fee = p_fee params;
          memo = p_memo params;
          network = (case p_network params of None \<Rightarrow> s_network this | Some n \<Rightarrow> n)
      in if \<not> validateStacksAddress lib recipient then ([], Inl (InvalidRecipient recipient))
         else if amount \<le> 0 then ([], Inl InvalidAmount)
         else
          (case getAddress lib this (Some network) of
             Inl e \<Rightarrow> ([], Inl (Thrown e))
           | Inr senderAddress \<Rightarrow>
          (case (case p_nonce params of
                   Some n \<Rightarrow> ([], Inr n)
                 | None \<Rightarrow> fetchNonce fetch senderAddress network) of
             (t1, Inl e) \<Rightarrow> (t1, Inl e)
           | (t1, Inr nonce) \<Rightarrow>
          (let txFee = (case fee of None \<Rightarrow> DEFAULT_FEE | Some f \<Rightarrow> f)
           in case makeUnsignedSTXTokenTransfer lib
                     \<lparr> o_recipient = recipient, o_amount = amount,
                       o_publicKey = compressedPublicKey this, o_nonce = nonce,
                       o_fee = txFee, o_network = network, o_memo = memo \<rparr> of
                Inl e \<Rightarrow> (t1, Inl (Thrown e))
              | Inr transaction \<Rightarrow>
          (case transactionSigner_sigHash lib transaction of
             Inl e \<Rightarrow> (t1, Inl (Thrown e))
           | Inr sigHash \<Rightarrow>
          (case sigHashPreSign lib sigHash (authType (auth transaction))
                  (sc_fee (spendingCondition (auth transaction)))
                  (sc_nonce (spendingCondition (auth transaction))) of
             Inl e \<Rightarrow> (t1, Inl (Thrown e))
           | Inr preSignHash \<Rightarrow>
               (t1, Inr \<lparr> b_transaction = transaction, b_senderAddress = senderAddress,
                          b_nonce = nonce, b_txFee = txFee,
                          b_preSignHash = preSignHash \<rparr>)))))))"

definition signSTXTransfer_attach ::
  "('sg, 'p) stacks_library \<Rightarrow> ('sg, 'p) built \<Rightarrow> raw_signature
     \<Rightarrow> failure + ('sg, 'p) SignedTransactionResult" where
  "signSTXTransfer_attach lib b signature =
     (case normalizeRecoveryByte (sig_v signature) of
        Inl e \<Rightarrow> Inl e
      | Inr v \<Rightarrow>
          (let r = padStart 64 48 (sig_r signature);
               s = padStart 64 48 (sig_s signature);
               vrs = v @ r @ s
           in if length vrs \<noteq> 130 then Inl (InvalidSignatureLength (length vrs))
              else
               (case createMessageSignature lib vrs of
                  Inl e \<Rightarrow> Inl (Thrown e)
                | Inr sg \<Rightarrow>
                    Inr \<lparr> r_transaction = set_signature sg (b_transaction b),
                          r_senderAddress = b_senderAddress b,
                          r_nonce = b_nonce b,
                          r_fee = b_txFee b \<rparr>)))"

definition signSTXTransfer ::
  "revision \<Rightarrow> ('sg, 'p) stacks_library \<Rightarrow> fetch_fn \<Rightarrow> TurnkeySigner \<Rightarrow> STXTransferParams
     \<Rightarrow> event list \<times> (failure + ('sg, 'p) SignedTransactionResult)" where
  "signSTXTransfer rvn lib fetch this params =
     (case signSTXTransfer_build lib fetch this params of
        (t1, Inl e) \<Rightarrow> (t1, Inl e)
      | (t1, Inr b) \<Rightarrow>
          (case signHash rvn this (b_preSignHash b) of
             (t2, Inl e) \<Rightarrow> (t1 @ t2, Inl e)
           | (t2, Inr signature) \<Rightarrow> (t1 @ t2, signSTXTransfer_attach lib b signature)))"

subsection \<open>Stand-ins for the collaborators\<close>

text \<open>
  Fixed collaborators on which the theorems below are run: a library that accepts one
  recipient, marks an address by its network, builds a transaction that holds the fee
  and the nonce it was given, and wraps a signature as it is; a client that answers
  every request with one signature, one that rejects every request, and one that signs
  only what comes with the hash function \<^verbatim>\<open>HASH_FUNCTION_NO_OP\<close>; a nonce service that
  answers 200 with a given body; a lower-casing that knows U+0130.
\<close>

definition stub_library :: "(jstring, transfer_options) stacks_library" where
  "stub_library =
     \<lparr> validateStacksAddress = (\<lambda>a. a = ascii ''ST2J6ZY7R94P80Z4CGFRHZ3Q16MF0NKHN3FK4R0N''),
       publicKeyToAddress =
         (\<lambda>k n. Inr (ascii (case n of Testnet \<Rightarrow> ''ST'' | Mainnet \<Rightarrow> ''SP'') @ k)),
       makeUnsignedSTXTokenTransfer =
         (\<lambda>opts. Inr \<lparr> auth = \<lparr> authType = 4,
                                  spendingCondition =
                                    \<lparr> sc_fee = o_fee opts, sc_nonce = o_nonce opts,
                                      sc_signature = [] \<rparr> \<rparr>,
                         tx_rest = opts \<rparr>),
       transactionSigner_sigHash = (\<lambda>tx. Inr (ascii ''aa'')),
       sigHashPreSign = (\<lambda>h a f n. Inr (h @ ascii ''bb'')),
       createMessageSignature = (\<lambda>vrs. Inr vrs) \<rparr>"

definition stub_client :: "jstring \<Rightarrow> jstring \<Rightarrow> jstring \<Rightarrow> TurnkeySignerClient" where
  "stub_client v r s = (\<lambda>request. Inr \<lparr> sig_v = v, sig_r = r, sig_s = s \<rparr>)"

definition rejecting_client :: "rejection \<Rightarrow> TurnkeySignerClient" where
  "rejecting_client e = (\<lambda>request. Inl e)"

definition strict_client :: TurnkeySignerClient where
  "strict_client =
     (\<lambda>request. if hashFunction request = ascii ''HASH_FUNCTION_NO_OP''
                     \<and> encoding request = ascii ''PAYLOAD_ENCODING_HEXADECIMAL''
                  then Inr \<lparr> sig_v = ascii ''00'', sig_r = payload request, sig_s = ascii ''2'' \<rparr>
                  else Inl (NonError (hashFunction request)))"

definition stub_fetch :: "json_body \<Rightarrow> fetch_fn" where
  "stub_fetch body = (\<lambda>url. Inr \<lparr> status = 200, statusText = ascii ''OK'', json = Inr body \<rparr>)"

definition stub_key :: jstring where
  "stub_key = ascii ''025afa6566651f6c49d84a482a1af918b25ba7caac0b06d9ab8d79a45b72715aeb''"

definition stub_signer :: "TurnkeySignerClient \<Rightarrow> TurnkeySigner" where
  "stub_signer c =
     \<lparr> s_organizationId = Some (ascii ''org-123''),
       s_network = Testnet,
       s_client = c,
       compressedPublicKey = stub_key \<rparr>"

definition stub_config :: "TurnkeySignerClient \<Rightarrow> jstring \<Rightarrow> TurnkeySignerConfig" where
  "stub_config c key =
     \<lparr> cfg_client = c, cfg_organizationId = Some (ascii ''org-123''), cfg_publicKey = Str key,
       cfg_network = None \<rparr>"

definition stub_params :: "int \<Rightarrow> int option \<Rightarrow> int option \<Rightarrow> STXTransferParams" where
  "stub_params amount nonce fee =
     \<lparr> p_recipient = ascii ''ST2J6ZY7R94P80Z4CGFRHZ3Q16MF0NKHN3FK4R0N'', p_amount = amount,
       p_nonce = nonce, p_fee = fee, p_memo = None, p_network = None \<rparr>"

text \<open>U+0130 is 304; U+0069 U+0307 are 105 and 775.\<close>

definition stub_unicode_lower :: "jstring \<Rightarrow> jstring" where
  "stub_unicode_lower s = concat (map (\<lambda>u. if u = 304 then [105, 775] else [toLowerCase_ascii u]) s)"

section \<open>Properties\<close>

subsection \<open>Strings\<close>

lemma ascii_simps:
  "ascii [] = []" "ascii (c # s) = of_char c # ascii s"
  by (simp_all add: ascii_def)

lemma length_ascii [simp]: "length (ascii s) = length s"
  by (simp add: ascii_def)

lemma ascii_eq_iff [simp]: "ascii a = ascii b \<longleftrightarrow> a = b"
  by (simp add: ascii_def inj_map_eq_map [OF inj_of_char])

lemma ascii_Nil_iff [simp]: "ascii s = [] \<longleftrightarrow> s = []"
  by (simp add: ascii_def)

lemma ascii_append [simp]: "ascii a @ ascii b = ascii (a @ b)"
  by (simp add: ascii_def)

lemma ascii_append_assoc [simp]: "ascii a @ ascii b @ s = ascii (a @ b) @ s"
  by (simp add: ascii_def)

lemma toLowerCase_ascii_string:
  "list_all isAscii s \<Longrightarrow> toLowerCase unicode_lower s = map toLowerCase_ascii s"
  by (simp add: toLowerCase_def)

lemma isHexDigit_isAscii: "isHexDigit u \<Longrightarrow> isAscii u"
  by (auto simp: isHexDigit_def hexDigitValue_def isAscii_def split: if_splits)

lemma list_all_isHexDigit_isAscii: "list_all isHexDigit s \<Longrightarrow> list_all isAscii s"
  by (auto simp: list_all_iff isHexDigit_isAscii)

lemma toLowerCase_ascii_idem: "toLowerCase_ascii (toLowerCase_ascii u) = toLowerCase_ascii u"
  by (simp add: toLowerCase_ascii_def)

lemma isAscii_toLowerCase_ascii: "isAscii u \<Longrightarrow> isAscii (toLowerCase_ascii u)"
  by (simp add: isAscii_def toLowerCase_ascii_def)

lemma isHexDigit_toLowerCase_ascii: "isHexDigit u \<Longrightarrow> isHexDigit (toLowerCase_ascii u)"
  by (auto simp: isHexDigit_def hexDigitValue_def toLowerCase_ascii_def split: if_splits)

text \<open>Lower-casing neither produces nor consumes a digit.\<close>

lemma toLowerCase_ascii_eq_low: "d < 65 \<Longrightarrow> toLowerCase_ascii u = d \<longleftrightarrow> u = d"
  by (auto simp: toLowerCase_ascii_def)

lemma slice_map_toLowerCase_ascii_digits:
  assumes "a < 65" and "b < 65"
  shows "slice 0 2 (map toLowerCase_ascii s) = [a, b] \<longleftrightarrow> slice 0 2 s = [a, b]"
proof (cases s)
  case Nil
  then show ?thesis by (simp add: slice_def)
next
  case (Cons x xs)
  then show ?thesis
    using assms by (cases xs) (simp_all add: slice_def toLowerCase_ascii_eq_low)
qed

lemma ascii_02_03: "ascii ''02'' = [48, 50]" "ascii ''03'' = [48, 51]" "ascii ''0x'' = [48, 120]"
  by (simp_all add: ascii_simps)

lemma startsWith_0x_slice:
  "slice 0 2 c = ascii ''02'' \<or> slice 0 2 c = ascii ''03'' \<Longrightarrow> \<not> startsWith c (ascii ''0x'')"
  by (auto simp: slice_def startsWith_def numeral_2_eq_2 ascii_02_03)

subsection \<open>The key validator\<close>

lemma cleaned_key_ascii:
  assumes "list_all isAscii (strip_0x k)"
  shows "length (cleaned_key rvn unicode_lower k) = length (strip_0x k)"
    and "slice 0 2 (cleaned_key rvn unicode_lower k) = ascii ''02'' \<longleftrightarrow> slice 0 2 (strip_0x k) = ascii ''02''"
    and "slice 0 2 (cleaned_key rvn unicode_lower k) = ascii ''03'' \<longleftrightarrow> slice 0 2 (strip_0x k) = ascii ''03''"
  using assms
  by (cases rvn; simp add: cleaned_key_def toLowerCase_ascii_string ascii_02_03
        slice_map_toLowerCase_ascii_digits)+

lemma validator_message_differ:
  "validator_message (InvalidKeyFormat n) \<noteq> validator_message (InvalidKeyPrefix p)"
proof -
  have a: "the (validator_message (InvalidKeyFormat n)) ! 19 = 108"
    by (simp add: ascii_simps del: decimal.simps ascii_append ascii_append_assoc)
  have b: "the (validator_message (InvalidKeyPrefix p)) ! 19 = 112"
    by (simp add: ascii_simps del: ascii_append ascii_append_assoc)
  show ?thesis
  proof
    assume "validator_message (InvalidKeyFormat n) = validator_message (InvalidKeyPrefix p)"
    then have "the (validator_message (InvalidKeyFormat n)) ! 19
                 = the (validator_message (InvalidKeyPrefix p)) ! 19"
      by (simp only:)
    then show False unfolding a b by simp
  qed
qed

text \<open>
  C4, as the code has it. The length that is tested is the length of \<open>cleaned\<close>: of
  the stripped key in \<^verbatim>\<open>src/index.ts\<close>, of the stripped and lower-cased key in
  \<^verbatim>\<open>part_000\<close>. If it is not 66 the validator fails with the length error, whatever
  the leading byte. If it is 66 and the first two code units of \<open>cleaned\<close> are neither
  \<^verbatim>\<open>02\<close> nor \<^verbatim>\<open>03\<close>, the validator fails with the prefix error. For a key of ASCII
  code units, lower-casing keeps the length and the digits, so that in both revisions
  the stripped key decides: a length other than 66 gives the length error, and the
  length 66 with first two code units other than \<^verbatim>\<open>02\<close> and \<^verbatim>\<open>03\<close> gives the prefix
  error. The messages of the two errors differ.
\<close>

theorem validateCompressedPublicKey_rejects:
  "(length (cleaned_key rvn unicode_lower k) \<noteq> 66 \<longrightarrow>
      validateCompressedPublicKey rvn unicode_lower (Str k)
        = Inl (InvalidKeyFormat (length (cleaned_key rvn unicode_lower k))))
   \<and> (length (cleaned_key rvn unicode_lower k) = 66
       \<and> slice 0 2 (cleaned_key rvn unicode_lower k) \<noteq> ascii ''02''
       \<and> slice 0 2 (cleaned_key rvn unicode_lower k) \<noteq> ascii ''03'' \<longrightarrow>
      validateCompressedPublicKey rvn unicode_lower (Str k)
        = Inl (InvalidKeyPrefix (slice 0 2 (cleaned_key rvn unicode_lower k))))
   \<and> cleaned_key Index_ts unicode_lower k = strip_0x k
   \<and> cleaned_key Part_000 unicode_lower k = toLowerCase unicode_lower (strip_0x k)
   \<and> (list_all isAscii (strip_0x k) \<and> length (strip_0x k) \<noteq> 66 \<longrightarrow>
      validateCompressedPublicKey rvn unicode_lower (Str k)
        = Inl (InvalidKeyFormat (length (strip_0x k))))
   \<and> (list_all isAscii (strip_0x k) \<and> length (strip_0x k) = 66
       \<and> slice 0 2 (strip_0x k) \<noteq> ascii ''02'' \<and> slice 0 2 (strip_0x k) \<noteq> ascii ''03'' \<longrightarrow>
      (\<exists>p. validateCompressedPublicKey rvn unicode_lower (Str k) = Inl (InvalidKeyPrefix p)))
   \<and> (\<forall>n p. validator_message (InvalidKeyFormat n) \<noteq> validator_message (InvalidKeyPrefix p))"
proof -
  have 1: "length (cleaned_key rvn unicode_lower k) \<noteq> 66 \<Longrightarrow>
      validateCompressedPublicKey rvn unicode_lower (Str k)
        = Inl (InvalidKeyFormat (length (cleaned_key rvn unicode_lower k)))"
    by (simp add: Let_def)
  have 2: "length (cleaned_key rvn unicode_lower k) = 66 \<Longrightarrow>
       slice 0 2 (cleaned_key rvn unicode_lower k) \<noteq> ascii ''02'' \<Longrightarrow>
       slice 0 2 (cleaned_key rvn unicode_lower k) \<noteq> ascii ''03'' \<Longrightarrow>
      validateCompressedPublicKey rvn unicode_lower (Str k)
        = Inl (InvalidKeyPrefix (slice 0 2 (cleaned_key rvn unicode_lower k)))"
    by (simp add: Let_def)
  have 3: "validateCompressedPublicKey rvn unicode_lower (Str k)
        = Inl (InvalidKeyFormat (length (strip_0x k)))"
    if "list_all isAscii (strip_0x k)" "length (strip_0x k) \<noteq> 66"
    using 1 that cleaned_key_ascii(1) [OF that(1), of rvn unicode_lower] by simp
  have 4: "\<exists>p. validateCompressedPublicKey rvn unicode_lower (Str k) = Inl (InvalidKeyPrefix p)"
    if "list_all isAscii (strip_0x k)" "length (strip_0x k) = 66"
      "slice 0 2 (strip_0x k) \<noteq> ascii ''02''" "slice 0 2 (strip_0x k) \<noteq> ascii ''03''"
  proof -
    note c = cleaned_key_ascii [OF that(1), of rvn unicode_lower]
    have "validateCompressedPublicKey rvn unicode_lower (Str k)
        = Inl (InvalidKeyPrefix (slice 0 2 (cleaned_key rvn unicode_lower k)))"
      using that c by (intro 2) simp_all
    then show ?thesis by (rule exI)
  qed
  have 5: "cleaned_key Index_ts unicode_lower k = strip_0x k"
    "cleaned_key Part_000 unicode_lower k = toLowerCase unicode_lower (strip_0x k)"
    by (simp_all add: cleaned_key_def)
  show ?thesis using 1 2 3 4 5 validator_message_differ by blast
qed

theorem validateCompressedPublicKey_rejects_witness:
  "validateCompressedPublicKey Part_000 stub_unicode_lower (Str (ascii ''025afa''))
     = Inl (InvalidKeyFormat 6)
   \<and> validateCompressedPublicKey Index_ts stub_unicode_lower
         (Str (ascii ''045afa6566651f6c49d84a482a1af918b25ba7caac0b06d9ab8d79a45b72715aeb''))
       = Inl (InvalidKeyPrefix (ascii ''04''))
   \<and> validateCompressedPublicKey Part_000 stub_unicode_lower
         (Str (ascii ''04'' @ [304] @ replicate 63 97))
       = Inl (InvalidKeyFormat 67)
   \<and> validateCompressedPublicKey Part_000 stub_unicode_lower (Str (ascii ''0x04AB''))
       = Inl (InvalidKeyFormat 4)
   \<and> (\<exists>p. validateCompressedPublicKey Part_000 stub_unicode_lower
         (Str (ascii ''045AFA6566651F6C49D84A482A1AF918B25BA7CAAC0B06D9AB8D79A45B72715AEB''))
       = Inl (InvalidKeyPrefix p))"
proof -
  let ?k1 = "ascii ''025afa''"
  let ?k2 = "ascii ''045afa6566651f6c49d84a482a1af918b25ba7caac0b06d9ab8d79a45b72715aeb''"
  let ?k3 = "ascii ''04'' @ [304] @ replicate 63 97"
  let ?k4 = "ascii ''0x04AB''"
  let ?k5 = "ascii ''045AFA6566651F6C49D84A482A1AF918B25BA7CAAC0B06D9AB8D79A45B72715AEB''"
  have l1: "length (cleaned_key Part_000 stub_unicode_lower ?k1) = 6" by code_simp
  have l2: "length (cleaned_key Index_ts stub_unicode_lower ?k2) = 66"
    "slice 0 2 (cleaned_key Index_ts stub_unicode_lower ?k2) = ascii ''04''"
    by code_simp+
  have l3: "length (cleaned_key Part_000 stub_unicode_lower ?k3) = 67" by code_simp
  have l4: "list_all isAscii (strip_0x ?k4)" "length (strip_0x ?k4) = 4" by code_simp+
  have l5: "list_all isAscii (strip_0x ?k5)" "length (strip_0x ?k5) = 66"
    "slice 0 2 (strip_0x ?k5) = ascii ''04''"
    by code_simp+
  have a: "validateCompressedPublicKey Part_000 stub_unicode_lower (Str ?k1) = Inl (InvalidKeyFormat 6)"
    using validateCompressedPublicKey_rejects
      [of Part_000 stub_unicode_lower ?k1, THEN conjunct1, unfolded l1]
    by (simp del: validateCompressedPublicKey.simps)
  have b: "validateCompressedPublicKey Index_ts stub_unicode_lower (Str ?k2)
       = Inl (InvalidKeyPrefix (ascii ''04''))"
    using validateCompressedPublicKey_rejects
      [of Index_ts stub_unicode_lower ?k2, THEN conjunct2, THEN conjunct1, unfolded l2]
    by (simp del: validateCompressedPublicKey.simps)
  have c: "validateCompressedPublicKey Part_000 stub_unicode_lower (Str ?k3) = Inl (InvalidKeyFormat 67)"
    using validateCompressedPublicKey_rejects
      [of Part_000 stub_unicode_lower ?k3, THEN conjunct1, unfolded l3]
    by (simp del: validateCompressedPublicKey.simps)
  have d: "validateCompressedPublicKey Part_000 stub_unicode_lower (Str ?k4) = Inl (InvalidKeyFormat 4)"
    using validateCompressedPublicKey_rejects
      [of Part_000 stub_unicode_lower ?k4, THEN conjunct2, THEN conjunct2, THEN conjunct2,
       THEN conjunct2, THEN conjunct1]
    by (simp add: l4 del: validateCompressedPublicKey.simps)
  have e: "\<exists>p. validateCompressedPublicKey Part_000 stub_unicode_lower (Str ?k5)
       = Inl (InvalidKeyPrefix p)"
    using validateCompressedPublicKey_rejects
      [of Part_000 stub_unicode_lower ?k5, THEN conjunct2, THEN conjunct2, THEN conjunct2,
       THEN conjunct2, THEN conjunct2, THEN conjunct1]
    by (simp add: l5 del: validateCompressedPublicKey.simps)
  show ?thesis by (rule conjI [OF a conjI [OF b conjI [OF c conjI [OF d e]]]])
qed

text \<open>
  C4 as stated fails twice. The key \<^verbatim>\<open>04\<close> has a leading byte that is neither 02 nor 03,
  and it is rejected for its length, not for its prefix. And in \<^verbatim>\<open>part_000\<close> a key of
  65 code units that holds U+0130 has 66 code units once lower-cased, and is
  accepted.
\<close>

theorem validateCompressedPublicKey_short_key_bad_prefix:
  "slice 0 2 (strip_0x (ascii ''04'')) \<noteq> ascii ''02''
   \<and> slice 0 2 (strip_0x (ascii ''04'')) \<noteq> ascii ''03''
   \<and> validateCompressedPublicKey Index_ts stub_unicode_lower (Str (ascii ''04''))
       = Inl (InvalidKeyFormat 2)
   \<and> validateCompressedPublicKey Part_000 stub_unicode_lower (Str (ascii ''04''))
       = Inl (InvalidKeyFormat 2)
   \<and> length (strip_0x (ascii ''02'' @ [304] @ replicate 62 97)) = 65
   \<and> validateCompressedPublicKey Part_000 stub_unicode_lower
        (Str (ascii ''02'' @ [304] @ replicate 62 97))
       = Inr (ascii ''02'' @ [105, 775] @ replicate 62 97)"
  by code_simp

subsection \<open>The stored key\<close>

lemma validateCompressedPublicKey_Part_000_canonical:
  assumes len: "length (strip_0x k) = 66"
    and hex: "list_all isHexDigit (strip_0x k)"
    and pre: "slice 0 2 (strip_0x k) = ascii ''02'' \<or> slice 0 2 (strip_0x k) = ascii ''03''"
  shows "validateCompressedPublicKey Part_000 unicode_lower (Str k)
           = Inr (toLowerCase unicode_lower (strip_0x k))
    \<and> length (toLowerCase unicode_lower (strip_0x k)) = 66
    \<and> list_all isHexDigit (toLowerCase unicode_lower (strip_0x k))
    \<and> toLowerCase unicode_lower (toLowerCase unicode_lower (strip_0x k))
        = toLowerCase unicode_lower (strip_0x k)
    \<and> \<not> startsWith (toLowerCase unicode_lower (strip_0x k)) (ascii ''0x'')
    \<and> (slice 0 2 (toLowerCase unicode_lower (strip_0x k)) = ascii ''02''
        \<or> slice 0 2 (toLowerCase unicode_lower (strip_0x k)) = ascii ''03'')"
proof -
  have asc: "list_all isAscii (strip_0x k)"
    using hex by (rule list_all_isHexDigit_isAscii)
  have low: "toLowerCase unicode_lower (strip_0x k) = map toLowerCase_ascii (strip_0x k)"
    using asc by (rule toLowerCase_ascii_string)
  have c: "cleaned_key Part_000 unicode_lower k = map toLowerCase_ascii (strip_0x k)"
    by (simp add: cleaned_key_def low)
  have p: "slice 0 2 (map toLowerCase_ascii (strip_0x k)) = ascii ''02''
           \<or> slice 0 2 (map toLowerCase_ascii (strip_0x k)) = ascii ''03''"
    using pre cleaned_key_ascii(2,3) [OF asc, of Part_000 unicode_lower] by (simp add: c)
  have v: "validateCompressedPublicKey Part_000 unicode_lower (Str k)
             = Inr (map toLowerCase_ascii (strip_0x k))"
    using len p by (auto simp: Let_def c)
  have asc2: "list_all isAscii (map toLowerCase_ascii (strip_0x k))"
    using asc by (simp add: list_all_iff isAscii_toLowerCase_ascii)
  have idem: "toLowerCase unicode_lower (map toLowerCase_ascii (strip_0x k))
                = map toLowerCase_ascii (strip_0x k)"
    by (simp add: toLowerCase_ascii_string [OF asc2] toLowerCase_ascii_idem)
  have hx: "list_all isHexDigit (map toLowerCase_ascii (strip_0x k))"
    using hex by (simp add: list_all_iff isHexDigit_toLowerCase_ascii)
  show ?thesis
    unfolding low using v p len hx idem startsWith_0x_slice [OF p] by simp
qed

lemma new_TurnkeySigner_Part_000_canonical:
  assumes "cfg_publicKey config = Str k"
    and "length (strip_0x k) = 66"
    and "list_all isHexDigit (strip_0x k)"
    and "slice 0 2 (strip_0x k) = ascii ''02'' \<or> slice 0 2 (strip_0x k) = ascii ''03''"
  shows "\<exists>this. new_TurnkeySigner Part_000 unicode_lower config = Inr this
           \<and> getPublicKey this = toLowerCase unicode_lower (strip_0x k)"
  using validateCompressedPublicKey_Part_000_canonical [OF assms(2-4), of unicode_lower] assms(1)
  by (simp add: new_TurnkeySigner_def getPublicKey_def del: validateCompressedPublicKey.simps)

lemma stub_validate:
  "validateCompressedPublicKey Part_000 unicode_lower
     (Str (ascii ''0x025AFA6566651F6C49D84A482A1AF918B25BA7CAAC0B06D9AB8D79A45B72715AEB''))
   = Inr stub_key"
proof -
  let ?k = "ascii ''0x025AFA6566651F6C49D84A482A1AF918B25BA7CAAC0B06D9AB8D79A45B72715AEB''"
  have a: "length (strip_0x ?k) = 66" "list_all isHexDigit (strip_0x ?k)"
    "slice 0 2 (strip_0x ?k) = ascii ''02'' \<or> slice 0 2 (strip_0x ?k) = ascii ''03''"
    "map toLowerCase_ascii (strip_0x ?k) = stub_key"
    by code_simp+
  have "toLowerCase unicode_lower (strip_0x ?k) = stub_key"
    using toLowerCase_ascii_string [OF list_all_isHexDigit_isAscii [OF a(2)], of unicode_lower] a(4)
    by simp
  with validateCompressedPublicKey_Part_000_canonical [OF a(1-3), of unicode_lower]
  show ?thesis by simp
qed

lemma stub_validate_Index_ts:
  "validateCompressedPublicKey Index_ts unicode_lower
     (Str (ascii ''0x025AFA6566651F6C49D84A482A1AF918B25BA7CAAC0B06D9AB8D79A45B72715AEB''))
   = Inr (ascii ''025AFA6566651F6C49D84A482A1AF918B25BA7CAAC0B06D9AB8D79A45B72715AEB'')"
proof -
  let ?k = "ascii ''0x025AFA6566651F6C49D84A482A1AF918B25BA7CAAC0B06D9AB8D79A45B72715AEB''"
  have a: "strip_0x ?k = ascii ''025AFA6566651F6C49D84A482A1AF918B25BA7CAAC0B06D9AB8D79A45B72715AEB''"
    by code_simp
  have b: "slice 0 2 (ascii ''025AFA6566651F6C49D84A482A1AF918B25BA7CAAC0B06D9AB8D79A45B72715AEB'')
     = ascii ''02''"
    by code_simp
  show ?thesis
    by (simp add: Let_def cleaned_key_def a b)
qed


subsection \<open>Steps of signSTXTransfer\<close>

text \<open>What a run of each step shows to the outside, and what a successful step implies.\<close>

lemma fetchNonce_no_sign: "signing_requests (fst (fetchNonce fetch a n)) = []"
  by (simp add: fetchNonce_def Let_def call_fetch_def split: sum.splits)

lemma build_trace_no_sign:
  "signing_requests (fst (signSTXTransfer_build lib fetch this params)) = []"
proof -
  have h: "signing_requests x = []"
    if "(case p_nonce params of Some n \<Rightarrow> ([], Inr n) | None \<Rightarrow> fetchNonce fetch a n') = (x, y)"
    for a n' x y
    using that fetchNonce_no_sign [of fetch a n'] by (auto split: option.splits)
  show ?thesis
    by (auto simp: signSTXTransfer_build_def Let_def split: sum.splits prod.splits dest: h)
qed

lemma signing_requests_append [simp]:
  "signing_requests (t1 @ t2) = signing_requests t1 @ signing_requests t2"
  by (induction t1 rule: signing_requests.induct) simp_all

lemma build_early:
  "(\<not> validateStacksAddress lib (p_recipient params) \<longrightarrow>
      signSTXTransfer_build lib fetch this params = ([], Inl (InvalidRecipient (p_recipient params))))
   \<and> (validateStacksAddress lib (p_recipient params) \<and> p_amount params \<le> 0 \<longrightarrow>
      signSTXTransfer_build lib fetch this params = ([], Inl InvalidAmount))"
  by (simp add: signSTXTransfer_build_def Let_def)

text \<open>
  \<^verbatim>\<open>signHash\<close> applies the client to \<open>signHash_request\<close>, once, and its outcome is the
  client's answer to that request.
\<close>

lemma signHash_eq:
  "signHash rvn this h =
     ([SignRawPayload (signHash_request rvn this h)],
      case s_client this (signHash_request rvn this h) of
        Inl e \<Rightarrow> Inl (signHash_catch rvn this e)
      | Inr sg \<Rightarrow> Inr sg)"
  by (simp add: signHash_def call_signRawPayload_def split: sum.splits)

lemma signHash_request_fields:
  "hashFunction (signHash_request rvn this h) = ascii ''HASH_FUNCTION_NO_OP''"
  "encoding (signHash_request rvn this h) = ascii ''PAYLOAD_ENCODING_HEXADECIMAL''"
  "payload (signHash_request rvn this h) = ascii ''0x'' @ h"
  "signWith (signHash_request rvn this h) = compressedPublicKey this"
  by (cases rvn; simp add: signing_request_def split: option.splits)+

lemma build_success:
  assumes "signSTXTransfer_build lib fetch this params = (t1, Inr b)"
  shows "validateStacksAddress lib (p_recipient params) \<and> 0 < p_amount params
    \<and> getAddress lib this (Some (case p_network params of None \<Rightarrow> s_network this | Some n \<Rightarrow> n))
        = Inr (b_senderAddress b)
    \<and> (case p_nonce params of
          Some n \<Rightarrow> t1 = [] \<and> b_nonce b = n
        | None \<Rightarrow> fetchNonce fetch (b_senderAddress b)
                    (case p_network params of None \<Rightarrow> s_network this | Some n \<Rightarrow> n)
                  = (t1, Inr (b_nonce b)))
    \<and> b_txFee b = (case p_fee params of None \<Rightarrow> DEFAULT_FEE | Some f \<Rightarrow> f)
    \<and> makeUnsignedSTXTokenTransfer lib
         \<lparr> o_recipient = p_recipient params, o_amount = p_amount params,
           o_publicKey = compressedPublicKey this, o_nonce = b_nonce b,
           o_fee = b_txFee b,
           o_network = (case p_network params of None \<Rightarrow> s_network this | Some n \<Rightarrow> n),
           o_memo = p_memo params \<rparr> = Inr (b_transaction b)
    \<and> (\<exists>sigHash. transactionSigner_sigHash lib (b_transaction b) = Inr sigHash
          \<and> sigHashPreSign lib sigHash (authType (auth (b_transaction b)))
               (sc_fee (spendingCondition (auth (b_transaction b))))
               (sc_nonce (spendingCondition (auth (b_transaction b)))) = Inr (b_preSignHash b))"
  using assms
  by (auto simp: signSTXTransfer_build_def Let_def
      split: sum.splits option.splits prod.splits if_splits)

text \<open>After a successful build the run is the signing call and the assembly.\<close>

lemma signSTXTransfer_after_build:
  assumes "signSTXTransfer_build lib fetch this params = (t1, Inr b)"
  shows "signSTXTransfer rvn lib fetch this params =
     (t1 @ [SignRawPayload (signHash_request rvn this (b_preSignHash b))],
      case s_client this (signHash_request rvn this (b_preSignHash b)) of
        Inl e \<Rightarrow> Inl (signHash_catch rvn this e)
      | Inr sg \<Rightarrow> signSTXTransfer_attach lib b sg)"
  using assms by (simp add: signSTXTransfer_def signHash_eq split: sum.splits)

lemma signSTXTransfer_trace:
  "fst (signSTXTransfer rvn lib fetch this params) =
     (case signSTXTransfer_build lib fetch this params of
        (t1, Inl e) \<Rightarrow> t1
      | (t1, Inr b) \<Rightarrow> t1 @ fst (signHash rvn this (b_preSignHash b)))"
  by (simp add: signSTXTransfer_def split: prod.splits sum.splits)

lemma new_TurnkeySigner_key:
  "new_TurnkeySigner rvn unicode_lower config = Inr this \<Longrightarrow>
     validateCompressedPublicKey rvn unicode_lower (cfg_publicKey config)
       = Inr (compressedPublicKey this)"
  by (auto simp: new_TurnkeySigner_def split: sum.splits)

lemma signSTXTransfer_success:
  assumes "signSTXTransfer rvn lib fetch this params = (t, Inr res)"
  shows "\<exists>t1 t2 b sg. signSTXTransfer_build lib fetch this params = (t1, Inr b)
           \<and> signHash rvn this (b_preSignHash b) = (t2, Inr sg)
           \<and> t = t1 @ t2 \<and> signSTXTransfer_attach lib b sg = Inr res"
  using assms
  by (auto simp: signSTXTransfer_def split: prod.splits sum.splits)

lemma attach_success:
  assumes "signSTXTransfer_attach lib b sg = Inr res"
  shows "r_nonce res = b_nonce b \<and> r_fee res = b_txFee b \<and> r_senderAddress res = b_senderAddress b
         \<and> (\<exists>m. r_transaction res = set_signature m (b_transaction b))"
  using assms
  by (auto simp: signSTXTransfer_attach_def Let_def split: sum.splits if_splits)

lemma normalizeRecoveryByte_cases:
  "(parseInt16 v \<noteq> Some 0 \<and> parseInt16 v \<noteq> Some 1 \<longrightarrow>
      normalizeRecoveryByte v = Inl (InvalidRecoveryByte v))
   \<and> (parseInt16 v = Some 0 \<longrightarrow> normalizeRecoveryByte v = Inr (ascii ''00''))
   \<and> (parseInt16 v = Some 1 \<longrightarrow> normalizeRecoveryByte v = Inr (ascii ''01''))"
  by (auto simp: normalizeRecoveryByte_def toString16_def padStart_def hexDigitChar_def
      ascii_simps split: option.splits)

lemma attach_vrs:
  assumes v: "normalizeRecoveryByte (sig_v sg) = Inr v2" and lv: "length v2 = 2"
  shows "signSTXTransfer_attach lib b sg =
     (let vrs = v2 @ replicate (64 - length (sig_r sg)) 48 @ sig_r sg
                   @ replicate (64 - length (sig_s sg)) 48 @ sig_s sg
      in if length (sig_r sg) \<le> 64 \<and> length (sig_s sg) \<le> 64
         then (case createMessageSignature lib vrs of
                 Inl e \<Rightarrow> Inl (Thrown e)
               | Inr m \<Rightarrow> Inr \<lparr> r_transaction = set_signature m (b_transaction b),
                                r_senderAddress = b_senderAddress b,
                                r_nonce = b_nonce b, r_fee = b_txFee b \<rparr>)
         else Inl (InvalidSignatureLength (length vrs)))"
  using v lv by (auto simp: signSTXTransfer_attach_def Let_def padStart_def)


subsection \<open>Runs on the stand-ins\<close>

lemma stub_build:
  assumes "0 < amount"
  shows "signSTXTransfer_build stub_library fetch (stub_signer c) (stub_params amount (Some n) fee)
   = ([], Inr \<lparr> b_transaction =
         \<lparr> auth = \<lparr> authType = 4,
                    spendingCondition = \<lparr> sc_fee = (case fee of None \<Rightarrow> 180 | Some f \<Rightarrow> f),
                                          sc_nonce = n, sc_signature = [] \<rparr> \<rparr>,
           tx_rest = \<lparr> o_recipient = ascii ''ST2J6ZY7R94P80Z4CGFRHZ3Q16MF0NKHN3FK4R0N'',
                       o_amount = amount, o_publicKey = stub_key,
                       o_nonce = n, o_fee = (case fee of None \<Rightarrow> 180 | Some f \<Rightarrow> f),
                       o_network = Testnet, o_memo = None \<rparr> \<rparr>,
        b_senderAddress = ascii ''ST'' @ stub_key,
        b_nonce = n, b_txFee = (case fee of None \<Rightarrow> 180 | Some f \<Rightarrow> f),
        b_preSignHash = ascii ''aabb'' \<rparr>)"
  using assms
  by (simp add: signSTXTransfer_build_def stub_library_def stub_signer_def stub_params_def
      getAddress_def DEFAULT_FEE_def Let_def split: option.splits)

lemma stub_new:
  "new_TurnkeySigner Part_000 unicode_lower
     (stub_config c (ascii ''0x025AFA6566651F6C49D84A482A1AF918B25BA7CAAC0B06D9AB8D79A45B72715AEB''))
   = Inr (stub_signer c)"
  by (simp add: new_TurnkeySigner_def stub_config_def stub_signer_def stub_validate
      del: validateCompressedPublicKey.simps)

lemma stub_signHash_request:
  "signHash_request rvn (stub_signer c) h =
     \<lparr> organizationId = (case rvn of Index_ts \<Rightarrow> None | Part_000 \<Rightarrow> Some (ascii ''org-123'')),
       signWith = stub_key, payload = ascii ''0x'' @ h,
       encoding = ascii ''PAYLOAD_ENCODING_HEXADECIMAL'',
       hashFunction = ascii ''HASH_FUNCTION_NO_OP'' \<rparr>"
  by (cases rvn) (simp_all add: stub_signer_def signing_request_def)

lemma stub_signHash:
  "signHash rvn (stub_signer (stub_client v r s)) h =
     ([SignRawPayload (signHash_request rvn (stub_signer (stub_client v r s)) h)],
      Inr \<lparr> sig_v = v, sig_r = r, sig_s = s \<rparr>)"
  by (simp add: signHash_eq) (simp add: stub_signer_def stub_client_def)

lemma parse_examples:
  "parseInt16 (ascii ''00'') = Some 0" "parseInt16 (ascii ''1'') = Some 1"
  "parseInt16 (ascii ''01'') = Some 1" "parseInt16 (ascii ''2'') = Some 2"
  "parseInt16 (ascii ''zz'') = None" "parseInt16 (ascii ''0x1'') = Some 1"
  by (simp_all add: parseInt16_def isWhiteSpace_def ascii_simps startsWith_def hexValue_def
      hexDigitValue_def isHexDigit_def Let_def)

lemma stub_attach:
  "signSTXTransfer_attach stub_library b \<lparr> sig_v = ascii ''00'', sig_r = ascii ''1'', sig_s = ascii ''2'' \<rparr> =
     Inr \<lparr> r_transaction =
             set_signature (ascii ''00'' @ replicate 63 48 @ ascii ''1'' @ replicate 63 48 @ ascii ''2'')
               (b_transaction b),
           r_senderAddress = b_senderAddress b, r_nonce = b_nonce b, r_fee = b_txFee b \<rparr>"
proof -
  have n: "normalizeRecoveryByte (sig_v \<lparr> sig_v = ascii ''00'', sig_r = ascii ''1'', sig_s = ascii ''2'' \<rparr>)
             = Inr (ascii ''00'')"
    using normalizeRecoveryByte_cases [of "ascii ''00''"] by (simp add: parse_examples)
  have c: "createMessageSignature stub_library x = Inr x" for x
    by (simp add: stub_library_def)
  show ?thesis
    using n by (simp add: signSTXTransfer_attach_def padStart_def Let_def c)
qed

lemma stub_run:
  assumes "0 < amount"
  shows "signSTXTransfer rvn stub_library fetch
           (stub_signer (stub_client (ascii ''00'') (ascii ''1'') (ascii ''2'')))
           (stub_params amount (Some n) fee) =
     ([SignRawPayload
         \<lparr> organizationId = (case rvn of Index_ts \<Rightarrow> None | Part_000 \<Rightarrow> Some (ascii ''org-123'')),
           signWith = stub_key, payload = ascii ''0xaabb'',
           encoding = ascii ''PAYLOAD_ENCODING_HEXADECIMAL'',
           hashFunction = ascii ''HASH_FUNCTION_NO_OP'' \<rparr>],
      Inr \<lparr> r_transaction =
         \<lparr> auth = \<lparr> authType = 4,
                    spendingCondition = \<lparr> sc_fee = (case fee of None \<Rightarrow> 180 | Some f \<Rightarrow> f),
                      sc_nonce = n,
                      sc_signature = ascii ''00'' @ replicate 63 48 @ ascii ''1''
                                       @ replicate 63 48 @ ascii ''2'' \<rparr> \<rparr>,
           tx_rest = \<lparr> o_recipient = ascii ''ST2J6ZY7R94P80Z4CGFRHZ3Q16MF0NKHN3FK4R0N'',
                       o_amount = amount, o_publicKey = stub_key,
                       o_nonce = n, o_fee = (case fee of None \<Rightarrow> 180 | Some f \<Rightarrow> f),
                       o_network = Testnet, o_memo = None \<rparr> \<rparr>,
        r_senderAddress = ascii ''ST'' @ stub_key,
        r_nonce = n, r_fee = (case fee of None \<Rightarrow> 180 | Some f \<Rightarrow> f) \<rparr>)"
  by (simp add: signSTXTransfer_def stub_build [OF assms] stub_signHash stub_signHash_request
      stub_attach set_signature_def)


lemma stub_signHash_strict:
  "s_client (stub_signer strict_client) (signHash_request rvn (stub_signer strict_client) h)
     = Inr \<lparr> sig_v = ascii ''00'', sig_r = ascii ''0x'' @ h, sig_s = ascii ''2'' \<rparr>"
  by (simp add: stub_signHash_request) (simp add: stub_signer_def strict_client_def)

lemma stub_attach_strict:
  "signSTXTransfer_attach stub_library b
       \<lparr> sig_v = ascii ''00'', sig_r = ascii ''0xaabb'', sig_s = ascii ''2'' \<rparr> =
     Inr \<lparr> r_transaction =
             set_signature (ascii ''00'' @ replicate 58 48 @ ascii ''0xaabb'' @ replicate 63 48 @ ascii ''2'')
               (b_transaction b),
           r_senderAddress = b_senderAddress b, r_nonce = b_nonce b, r_fee = b_txFee b \<rparr>"
proof -
  have n: "normalizeRecoveryByte (sig_v \<lparr> sig_v = ascii ''00'', sig_r = ascii ''0xaabb'', sig_s = ascii ''2'' \<rparr>)
             = Inr (ascii ''00'')"
    using normalizeRecoveryByte_cases [of "ascii ''00''"] by (simp add: parse_examples)
  have c: "createMessageSignature stub_library x = Inr x" for x
    by (simp add: stub_library_def)
  show ?thesis
    using n by (simp add: signSTXTransfer_attach_def padStart_def Let_def c)
qed

subsection \<open>The signing request\<close>

text \<open>
  C1. For a signer made by the constructor, in either revision: when
  \<^verbatim>\<open>signSTXTransfer\<close> gets as far as the pre-sign hash, it applies the client's
  \<^verbatim>\<open>signRawPayload\<close> once, to the request \<open>signHash_request\<close>, and what it returns or
  throws is made of the client's answer to that very request: the assembly of the
  signature answered, or the failure of the rejected call. That request has the hash
  function \<^verbatim>\<open>HASH_FUNCTION_NO_OP\<close>, the encoding \<^verbatim>\<open>PAYLOAD_ENCODING_HEXADECIMAL\<close>, the
  payload \<^verbatim>\<open>0x\<close> followed by the result of \<^verbatim>\<open>sigHashPreSign\<close> on the built
  transaction, and signs with the key the validator returned. No request of any run has
  another hash function.
\<close>

theorem signSTXTransfer_signing_request:
  assumes new: "new_TurnkeySigner rvn unicode_lower config = Inr this"
  shows "(\<forall>t1 b. signSTXTransfer_build lib fetch this params = (t1, Inr b) \<longrightarrow>
            (let req = signHash_request rvn this (b_preSignHash b)
             in signSTXTransfer rvn lib fetch this params =
                   (t1 @ [SignRawPayload req],
                    case s_client this req of
                      Inl e \<Rightarrow> Inl (signHash_catch rvn this e)
                    | Inr sg \<Rightarrow> signSTXTransfer_attach lib b sg)
               \<and> signing_requests (fst (signSTXTransfer rvn lib fetch this params)) = [req]
               \<and> hashFunction req = ascii ''HASH_FUNCTION_NO_OP''
               \<and> encoding req = ascii ''PAYLOAD_ENCODING_HEXADECIMAL''
               \<and> payload req = ascii ''0x'' @ b_preSignHash b
               \<and> signWith req = getPublicKey this
               \<and> validateCompressedPublicKey rvn unicode_lower (cfg_publicKey config)
                   = Inr (signWith req)
               \<and> (\<exists>sigHash. transactionSigner_sigHash lib (b_transaction b) = Inr sigHash
                     \<and> sigHashPreSign lib sigHash (authType (auth (b_transaction b)))
                          (sc_fee (spendingCondition (auth (b_transaction b))))
                          (sc_nonce (spendingCondition (auth (b_transaction b))))
                        = Inr (b_preSignHash b))))
     \<and> (\<forall>req \<in> set (signing_requests (fst (signSTXTransfer rvn lib fetch this params))).
            hashFunction req = ascii ''HASH_FUNCTION_NO_OP'')"
proof (intro conjI allI impI ballI)
  fix t1 b
  assume build: "signSTXTransfer_build lib fetch this params = (t1, Inr b)"
  let ?req = "signHash_request rvn this (b_preSignHash b)"
  note run = signSTXTransfer_after_build [OF build, of rvn]
  have no: "signing_requests t1 = []"
    using build_trace_no_sign [of lib fetch this params] build by simp
  have tr: "signing_requests (fst (signSTXTransfer rvn lib fetch this params)) = [?req]"
    unfolding run using no by simp
  have key: "validateCompressedPublicKey rvn unicode_lower (cfg_publicKey config)
               = Inr (signWith ?req)"
    using new_TurnkeySigner_key [OF new] by (simp add: signHash_request_fields)
  have pre: "\<exists>sigHash. transactionSigner_sigHash lib (b_transaction b) = Inr sigHash
                     \<and> sigHashPreSign lib sigHash (authType (auth (b_transaction b)))
                          (sc_fee (spendingCondition (auth (b_transaction b))))
                          (sc_nonce (spendingCondition (auth (b_transaction b))))
                        = Inr (b_preSignHash b)"
    using build_success [OF build] by blast
  show "let req = signHash_request rvn this (b_preSignHash b)
             in signSTXTransfer rvn lib fetch this params =
                   (t1 @ [SignRawPayload req],
                    case s_client this req of
                      Inl e \<Rightarrow> Inl (signHash_catch rvn this e)
                    | Inr sg \<Rightarrow> signSTXTransfer_attach lib b sg)
               \<and> signing_requests (fst (signSTXTransfer rvn lib fetch this params)) = [req]
               \<and> hashFunction req = ascii ''HASH_FUNCTION_NO_OP''
               \<and> encoding req = ascii ''PAYLOAD_ENCODING_HEXADECIMAL''
               \<and> payload req = ascii ''0x'' @ b_preSignHash b
               \<and> signWith req = getPublicKey this
               \<and> validateCompressedPublicKey rvn unicode_lower (cfg_publicKey config)
                   = Inr (signWith req)
               \<and> (\<exists>sigHash. transactionSigner_sigHash lib (b_transaction b) = Inr sigHash
                     \<and> sigHashPreSign lib sigHash (authType (auth (b_transaction b)))
                          (sc_fee (spendingCondition (auth (b_transaction b))))
                          (sc_nonce (spendingCondition (auth (b_transaction b))))
                        = Inr (b_preSignHash b))"
    unfolding Let_def using run tr key pre
    by (simp add: signHash_request_fields getPublicKey_def)
next
  fix req
  assume mem: "req \<in> set (signing_requests (fst (signSTXTransfer rvn lib fetch this params)))"
  obtain t1 r where b: "signSTXTransfer_build lib fetch this params = (t1, r)"
    by (cases "signSTXTransfer_build lib fetch this params")
  have no: "signing_requests t1 = []"
    using build_trace_no_sign [of lib fetch this params] b by simp
  show "hashFunction req = ascii ''HASH_FUNCTION_NO_OP''"
  proof (cases r)
    case (Inl e)
    with mem b no show ?thesis by (simp add: signSTXTransfer_trace)
  next
    case (Inr bt)
    with mem b no show ?thesis
      by (auto simp: signSTXTransfer_trace signHash_eq signHash_request_fields)
  qed
qed

theorem signSTXTransfer_signing_request_witness:
  "new_TurnkeySigner Part_000 stub_unicode_lower
     (stub_config strict_client
        (ascii ''0x025AFA6566651F6C49D84A482A1AF918B25BA7CAAC0B06D9AB8D79A45B72715AEB''))
     = Inr (stub_signer strict_client)
   \<and> (\<exists>req res. signSTXTransfer Part_000 stub_library (stub_fetch JsonNull)
              (stub_signer strict_client) (stub_params 1000000 (Some 5) (Some 200))
            = ([SignRawPayload req], Inr res)
        \<and> sc_signature (spendingCondition (auth (r_transaction res)))
            = ascii ''00'' @ replicate 58 48 @ ascii ''0xaabb'' @ replicate 63 48 @ ascii ''2''
        \<and> hashFunction req = ascii ''HASH_FUNCTION_NO_OP''
        \<and> encoding req = ascii ''PAYLOAD_ENCODING_HEXADECIMAL''
        \<and> payload req = ascii ''0xaabb''
        \<and> signWith req = stub_key)"
proof -
  let ?signer = "stub_signer strict_client"
  let ?b = "\<lparr> b_transaction =
         \<lparr> auth = \<lparr> authType = 4,
                    spendingCondition = \<lparr> sc_fee = 200, sc_nonce = 5, sc_signature = ([] :: jstring) \<rparr> \<rparr>,
           tx_rest = \<lparr> o_recipient = ascii ''ST2J6ZY7R94P80Z4CGFRHZ3Q16MF0NKHN3FK4R0N'',
                       o_amount = 1000000, o_publicKey = stub_key,
                       o_nonce = 5, o_fee = 200,
                       o_network = Testnet, o_memo = None \<rparr> \<rparr>,
        b_senderAddress = ascii ''ST'' @ stub_key,
        b_nonce = 5, b_txFee = 200, b_preSignHash = ascii ''aabb'' \<rparr>"
  have new: "new_TurnkeySigner Part_000 stub_unicode_lower
     (stub_config strict_client
        (ascii ''0x025AFA6566651F6C49D84A482A1AF918B25BA7CAAC0B06D9AB8D79A45B72715AEB''))
     = Inr ?signer"
    by (rule stub_new)
  have pos: "(0::int) < 1000000" by simp
  have build: "signSTXTransfer_build stub_library (stub_fetch JsonNull) ?signer
      (stub_params 1000000 (Some 5) (Some 200)) = ([], Inr ?b)"
    using stub_build [OF pos, of "stub_fetch JsonNull" strict_client 5 "Some 200"] by simp
  have q: "s_client ?signer (signHash_request Part_000 ?signer (b_preSignHash ?b))
     = Inr \<lparr> sig_v = ascii ''00'', sig_r = ascii ''0xaabb'', sig_s = ascii ''2'' \<rparr>"
    using stub_signHash_strict [of Part_000 "ascii ''aabb''"] by simp
  have k: "getPublicKey ?signer = stub_key"
    by (simp add: getPublicKey_def stub_signer_def)
  have h: "b_preSignHash ?b = ascii ''aabb''" by simp
  let ?req = "signHash_request Part_000 ?signer (b_preSignHash ?b)"
  note c = signSTXTransfer_signing_request [OF new, of stub_library "stub_fetch JsonNull"
      "stub_params 1000000 (Some 5) (Some 200)", THEN conjunct1, rule_format, OF build,
      unfolded Let_def]
  note run = c [THEN conjunct1]
  note fields = c [THEN conjunct2, THEN conjunct2, THEN conjunct1]
    c [THEN conjunct2, THEN conjunct2, THEN conjunct2, THEN conjunct1]
    c [THEN conjunct2, THEN conjunct2, THEN conjunct2, THEN conjunct2, THEN conjunct1]
    c [THEN conjunct2, THEN conjunct2, THEN conjunct2, THEN conjunct2, THEN conjunct2, THEN conjunct1]
  have run': "signSTXTransfer Part_000 stub_library (stub_fetch JsonNull) ?signer
         (stub_params 1000000 (Some 5) (Some 200))
       = ([SignRawPayload ?req],
          Inr \<lparr> r_transaction =
             set_signature (ascii ''00'' @ replicate 58 48 @ ascii ''0xaabb'' @ replicate 63 48 @ ascii ''2'')
               (b_transaction ?b),
           r_senderAddress = b_senderAddress ?b, r_nonce = b_nonce ?b, r_fee = b_txFee ?b \<rparr>)"
    unfolding run q by (simp only: sum.case stub_attach_strict append_Nil)
  have f: "payload ?req = ascii ''0xaabb''" "signWith ?req = stub_key"
    using fields(3,4) unfolding h k by simp_all
  have sg: "sc_signature (spendingCondition (auth (r_transaction
       \<lparr> r_transaction =
             set_signature (ascii ''00'' @ replicate 58 48 @ ascii ''0xaabb'' @ replicate 63 48 @ ascii ''2'')
               (b_transaction ?b),
           r_senderAddress = b_senderAddress ?b, r_nonce = b_nonce ?b, r_fee = b_txFee ?b \<rparr>)))
       = ascii ''00'' @ replicate 58 48 @ ascii ''0xaabb'' @ replicate 63 48 @ ascii ''2''"
    by (simp add: set_signature_def)
  have "\<exists>req res. signSTXTransfer Part_000 stub_library (stub_fetch JsonNull)
              ?signer (stub_params 1000000 (Some 5) (Some 200))
            = ([SignRawPayload req], Inr res)
        \<and> sc_signature (spendingCondition (auth (r_transaction res)))
            = ascii ''00'' @ replicate 58 48 @ ascii ''0xaabb'' @ replicate 63 48 @ ascii ''2''
        \<and> hashFunction req = ascii ''HASH_FUNCTION_NO_OP''
        \<and> encoding req = ascii ''PAYLOAD_ENCODING_HEXADECIMAL''
        \<and> payload req = ascii ''0xaabb''
        \<and> signWith req = stub_key"
    by (intro exI conjI; (rule run' sg fields(1) fields(2) f)?)
  with new show ?thesis by (rule conjI)
qed


subsection \<open>Validation comes first\<close>

text \<open>
  C3, as the code has it. A recipient that fails \<^verbatim>\<open>validateStacksAddress\<close> makes the
  call fail with \<open>InvalidRecipient\<close>, whatever the amount; with a valid recipient, an
  amount of zero or less makes it fail with \<open>InvalidAmount\<close>. In both cases no network
  call has been made: no nonce fetch and no signing request.
\<close>

theorem signSTXTransfer_validates_before_network:
  "(\<not> validateStacksAddress lib (p_recipient params) \<longrightarrow>
      signSTXTransfer rvn lib fetch this params = ([], Inl (InvalidRecipient (p_recipient params))))
   \<and> (validateStacksAddress lib (p_recipient params) \<and> p_amount params \<le> 0 \<longrightarrow>
      signSTXTransfer rvn lib fetch this params = ([], Inl InvalidAmount))"
  using build_early [of lib params fetch this]
  by (auto simp: signSTXTransfer_def)

theorem signSTXTransfer_validates_before_network_witness:
  "signSTXTransfer Part_000 stub_library (stub_fetch (JsonValue Undefined))
      (stub_signer (stub_client (ascii ''00'') (ascii ''1'') (ascii ''2'')))
      ((stub_params 5 None None) \<lparr> p_recipient := ascii ''SP000'' \<rparr>)
     = ([], Inl (InvalidRecipient (ascii ''SP000'')))
   \<and> signSTXTransfer Index_ts stub_library (stub_fetch (JsonValue Undefined))
      (stub_signer (stub_client (ascii ''00'') (ascii ''1'') (ascii ''2''))) (stub_params 0 None None)
     = ([], Inl InvalidAmount)"
proof -
  have a: "\<not> validateStacksAddress stub_library
      (p_recipient ((stub_params 5 None None) \<lparr> p_recipient := ascii ''SP000'' \<rparr>))"
    by (simp add: stub_library_def stub_params_def)
  have b: "validateStacksAddress stub_library (p_recipient (stub_params 0 None None))
           \<and> p_amount (stub_params 0 None None) \<le> 0"
    by (simp add: stub_library_def stub_params_def)
  show ?thesis
    using a b
      signSTXTransfer_validates_before_network [of stub_library
           "(stub_params 5 None None) \<lparr> p_recipient := ascii ''SP000'' \<rparr>" Part_000
           "stub_fetch (JsonValue Undefined)"
           "stub_signer (stub_client (ascii ''00'') (ascii ''1'') (ascii ''2''))"]
      signSTXTransfer_validates_before_network [of stub_library "stub_params 0 None None" Index_ts
           "stub_fetch (JsonValue Undefined)"
           "stub_signer (stub_client (ascii ''00'') (ascii ''1'') (ascii ''2''))"]
    by (simp add: stub_params_def)
qed

text \<open>
  C3 as stated fails where both inputs are bad: the amount is 0, and the call fails
  with \<open>InvalidRecipient\<close>, not with \<open>InvalidAmount\<close>.
\<close>

theorem signSTXTransfer_bad_recipient_masks_amount:
  "p_amount ((stub_params 0 None None) \<lparr> p_recipient := ascii ''SP000'' \<rparr>) \<le> 0
   \<and> signSTXTransfer Part_000 stub_library (stub_fetch (JsonValue Undefined))
      (stub_signer (stub_client (ascii ''00'') (ascii ''1'') (ascii ''2'')))
      ((stub_params 0 None None) \<lparr> p_recipient := ascii ''SP000'' \<rparr>)
     = ([], Inl (InvalidRecipient (ascii ''SP000'')))
   \<and> signSTXTransfer Index_ts stub_library (stub_fetch (JsonValue Undefined))
      (stub_signer (stub_client (ascii ''00'') (ascii ''1'') (ascii ''2'')))
      ((stub_params 0 None None) \<lparr> p_recipient := ascii ''SP000'' \<rparr>)
     = ([], Inl (InvalidRecipient (ascii ''SP000'')))
   \<and> InvalidRecipient (ascii ''SP000'') \<noteq> InvalidAmount"
  by (simp add: signSTXTransfer_def signSTXTransfer_build_def stub_library_def stub_params_def)

subsection \<open>Nonce and fee\<close>

text \<open>
  C7. Whenever \<^verbatim>\<open>signSTXTransfer\<close> succeeds, in either revision: a nonce given by the
  caller is the nonce returned, a fee given by the caller is the fee returned, a missing
  fee is returned as 180, and the nonce and fee returned are those handed to
  \<^verbatim>\<open>makeUnsignedSTXTokenTransfer\<close>, whose transaction, with the signature set, is the
  one returned.
\<close>

theorem signSTXTransfer_nonce_fee_unchanged:
  assumes run: "signSTXTransfer rvn lib fetch this params = (t, Inr res)"
  shows "(\<forall>n. p_nonce params = Some n \<longrightarrow> r_nonce res = n)
     \<and> (\<forall>f. p_fee params = Some f \<longrightarrow> r_fee res = f)
     \<and> (p_fee params = None \<longrightarrow> r_fee res = 180)
     \<and> (\<exists>tx0 m. makeUnsignedSTXTokenTransfer lib
           \<lparr> o_recipient = p_recipient params, o_amount = p_amount params,
             o_publicKey = compressedPublicKey this, o_nonce = r_nonce res, o_fee = r_fee res,
             o_network = (case p_network params of None \<Rightarrow> s_network this | Some n \<Rightarrow> n),
             o_memo = p_memo params \<rparr> = Inr tx0
          \<and> r_transaction res = set_signature m tx0)"
proof -
  obtain t1 t2 b sg where b: "signSTXTransfer_build lib fetch this params = (t1, Inr b)"
    and a: "signSTXTransfer_attach lib b sg = Inr res"
    using signSTXTransfer_success [OF run] by blast
  from build_success [OF b] attach_success [OF a]
  show ?thesis by (auto simp: DEFAULT_FEE_def split: option.splits)
qed

theorem signSTXTransfer_nonce_fee_unchanged_witness:
  "(\<exists>t res. signSTXTransfer Part_000 stub_library (stub_fetch (JsonValue Undefined))
          (stub_signer (stub_client (ascii ''00'') (ascii ''1'') (ascii ''2'')))
          (stub_params 1000000 (Some 5) (Some 200))
        = (t, Inr res) \<and> r_nonce res = 5 \<and> r_fee res = 200)
   \<and> (\<exists>t res. signSTXTransfer Index_ts stub_library (stub_fetch (JsonValue Undefined))
          (stub_signer (stub_client (ascii ''00'') (ascii ''1'') (ascii ''2'')))
          (stub_params 1000000 (Some 5) None)
        = (t, Inr res) \<and> r_nonce res = 5 \<and> r_fee res = 180)"
proof -
  have pos: "(0::int) < 1000000" by simp
  note r1 = stub_run [OF pos, of Part_000 "stub_fetch (JsonValue Undefined)" 5 "Some 200"]
  note r2 = stub_run [OF pos, of Index_ts "stub_fetch (JsonValue Undefined)" 5 None]
  show ?thesis
    using signSTXTransfer_nonce_fee_unchanged [OF r1] signSTXTransfer_nonce_fee_unchanged [OF r2] r1 r2
    by (simp add: stub_params_def)
qed

subsection \<open>Assembly of the signature\<close>

text \<open>
  C2. Take a run, in either revision, in which the client has answered with a raw
  signature whose \<open>v\<close> parses to 0 or 1. If \<open>r\<close> and \<open>s\<close> have at most 64 characters
  each, the string handed to \<^verbatim>\<open>createMessageSignature\<close> is \<open>v\<close> as two characters,
  then \<open>r\<close> and then \<open>s\<close>, each filled with zeros on the left up to 64 characters; it
  has 130 characters, and what the library makes of it is the signature of the returned
  transaction. If \<open>r\<close> or \<open>s\<close> is longer, the call fails with
  \<open>InvalidSignatureLength\<close> and returns no transaction.
\<close>

theorem signSTXTransfer_signature_assembly:
  assumes build: "signSTXTransfer_build lib fetch this params = (t1, Inr b)"
    and sign: "signHash rvn this (b_preSignHash b) = (t2, Inr sg)"
    and v: "parseInt16 (sig_v sg) = Some 0 \<or> parseInt16 (sig_v sg) = Some 1"
  shows "(length (sig_r sg) \<le> 64 \<and> length (sig_s sg) \<le> 64 \<longrightarrow>
           (let vrs = (if parseInt16 (sig_v sg) = Some 0 then ascii ''00'' else ascii ''01'')
                        @ replicate (64 - length (sig_r sg)) 48 @ sig_r sg
                        @ replicate (64 - length (sig_s sg)) 48 @ sig_s sg
            in length vrs = 130
               \<and> snd (signSTXTransfer rvn lib fetch this params) =
                   (case createMessageSignature lib vrs of
                      Inl e \<Rightarrow> Inl (Thrown e)
                    | Inr m \<Rightarrow> Inr \<lparr> r_transaction = set_signature m (b_transaction b),
                                     r_senderAddress = b_senderAddress b,
                                     r_nonce = b_nonce b, r_fee = b_txFee b \<rparr>)
               \<and> (\<forall>res. snd (signSTXTransfer rvn lib fetch this params) = Inr res \<longrightarrow>
                     createMessageSignature lib vrs =
                       Inr (sc_signature (spendingCondition (auth (r_transaction res)))))))
     \<and> (64 < length (sig_r sg) \<or> 64 < length (sig_s sg) \<longrightarrow>
           (\<exists>n. n \<noteq> 130 \<and> snd (signSTXTransfer rvn lib fetch this params)
                               = Inl (InvalidSignatureLength n)))"
proof -
  have run: "snd (signSTXTransfer rvn lib fetch this params) = signSTXTransfer_attach lib b sg"
    using build sign by (simp add: signSTXTransfer_def)
  obtain v2 where v2: "normalizeRecoveryByte (sig_v sg) = Inr v2" "length v2 = 2"
    "v2 = (if parseInt16 (sig_v sg) = Some 0 then ascii ''00'' else ascii ''01'')"
    using v normalizeRecoveryByte_cases [of "sig_v sg"] by auto
  show ?thesis
    unfolding run attach_vrs [OF v2(1) v2(2)] using v2(2,3)
    by (auto simp: Let_def set_signature_def split: sum.splits)
qed


theorem signSTXTransfer_signature_assembly_witness:
  "(\<exists>res. snd (signSTXTransfer Part_000 stub_library (stub_fetch (JsonValue Undefined))
          (stub_signer (stub_client (ascii ''00'') (ascii ''1'') (ascii ''2'')))
          (stub_params 1000000 (Some 5) (Some 200)))
        = Inr res
      \<and> sc_signature (spendingCondition (auth (r_transaction res)))
        = ascii ''00'' @ replicate 63 48 @ ascii ''1'' @ replicate 63 48 @ ascii ''2'')
   \<and> (\<exists>n. n \<noteq> 130 \<and>
        snd (signSTXTransfer Index_ts stub_library (stub_fetch (JsonValue Undefined))
          (stub_signer (stub_client (ascii ''1'') (replicate 65 97) (ascii ''2'')))
          (stub_params 1000000 (Some 5) (Some 200)))
        = Inl (InvalidSignatureLength n))"
proof -
  let ?fetch = "stub_fetch (JsonValue Undefined)"
  let ?c1 = "stub_client (ascii ''00'') (ascii ''1'') (ascii ''2'')"
  let ?c2 = "stub_client (ascii ''1'') (replicate 65 97) (ascii ''2'')"
  let ?sg1 = "\<lparr> sig_v = ascii ''00'', sig_r = ascii ''1'', sig_s = ascii ''2'' \<rparr>"
  let ?sg2 = "\<lparr> sig_v = ascii ''1'', sig_r = replicate 65 97, sig_s = ascii ''2'' \<rparr>"
  have pos: "(0::int) < 1000000" by simp
  obtain b1 where b1: "signSTXTransfer_build stub_library ?fetch (stub_signer ?c1)
      (stub_params 1000000 (Some 5) (Some 200)) = ([], Inr b1)"
    using stub_build [OF pos, of ?fetch ?c1 5 "Some 200"] by simp
  obtain b2 where b2: "signSTXTransfer_build stub_library ?fetch (stub_signer ?c2)
      (stub_params 1000000 (Some 5) (Some 200)) = ([], Inr b2)"
    using stub_build [OF pos, of ?fetch ?c2 5 "Some 200"] by simp
  note s1 = stub_signHash [of Part_000 "ascii ''00''" "ascii ''1''" "ascii ''2''" "b_preSignHash b1"]
  note s2 = stub_signHash [of Index_ts "ascii ''1''" "replicate 65 97" "ascii ''2''" "b_preSignHash b2"]
  have v1: "parseInt16 (sig_v ?sg1) = Some 0 \<or> parseInt16 (sig_v ?sg1) = Some 1"
    by (simp add: parse_examples)
  have v2: "parseInt16 (sig_v ?sg2) = Some 0 \<or> parseInt16 (sig_v ?sg2) = Some 1"
    by (simp add: parse_examples)
  have len1: "length (sig_r ?sg1) \<le> 64 \<and> length (sig_s ?sg1) \<le> 64"
    by simp
  have len2: "64 < length (sig_r ?sg2) \<or> 64 < length (sig_s ?sg2)"
    by (simp only: raw_signature.simps length_replicate) simp
  have cm: "createMessageSignature stub_library x = Inr x" for x
    by (simp add: stub_library_def)
  have e: "(if parseInt16 (sig_v ?sg1) = Some 0 then ascii ''00'' else ascii ''01'') = ascii ''00''"
    by (simp add: parse_examples)
  have r: "replicate (64 - length (sig_r ?sg1)) 48 = replicate 63 (48 :: nat)"
    "replicate (64 - length (sig_s ?sg1)) 48 = replicate 63 (48 :: nat)"
    by simp_all
  have sel: "sig_r ?sg1 = ascii ''1''" "sig_s ?sg1 = ascii ''2''" by simp_all
  note ok = signSTXTransfer_signature_assembly [OF b1 s1 v1, THEN conjunct1, rule_format, OF len1,
      unfolded Let_def cm e r sel, THEN conjunct2, THEN conjunct1]
  note long = signSTXTransfer_signature_assembly [OF b2 s2 v2, THEN conjunct2, rule_format, OF len2]
  have first: "\<exists>res. snd (signSTXTransfer Part_000 stub_library ?fetch
          (stub_signer ?c1) (stub_params 1000000 (Some 5) (Some 200)))
        = Inr res
      \<and> sc_signature (spendingCondition (auth (r_transaction res)))
        = ascii ''00'' @ replicate 63 48 @ ascii ''1'' @ replicate 63 48 @ ascii ''2''"
    unfolding ok by (simp add: set_signature_def)
  show ?thesis using first long by (rule conjI)
qed


subsection \<open>A nonce response without the field\<close>






subsection \<open>The stored key in the first revision\<close>

text \<open>
  C5 fails on the first revision (\<^verbatim>\<open>src/index.ts\<close>), which has no \<^verbatim>\<open>toLowerCase\<close>: the
  key of the README in capital letters is accepted, stored and returned as it was
  written, and it is not its own lower-case form. The second revision stores the
  lower-case form.
\<close>

theorem new_TurnkeySigner_Index_ts_keeps_case:
  "map_sum id getPublicKey
     (new_TurnkeySigner Index_ts stub_unicode_lower
        (stub_config (stub_client (ascii ''00'') (ascii ''1'') (ascii ''2''))
           (ascii ''0x025AFA6566651F6C49D84A482A1AF918B25BA7CAAC0B06D9AB8D79A45B72715AEB'')))
     = Inr (ascii ''025AFA6566651F6C49D84A482A1AF918B25BA7CAAC0B06D9AB8D79A45B72715AEB'')
   \<and> toLowerCase stub_unicode_lower
         (ascii ''025AFA6566651F6C49D84A482A1AF918B25BA7CAAC0B06D9AB8D79A45B72715AEB'')
       = ascii ''025afa6566651f6c49d84a482a1af918b25ba7caac0b06d9ab8d79a45b72715aeb''
   \<and> map_sum id getPublicKey
     (new_TurnkeySigner Part_000 stub_unicode_lower
        (stub_config (stub_client (ascii ''00'') (ascii ''1'') (ascii ''2''))
           (ascii ''0x025AFA6566651F6C49D84A482A1AF918B25BA7CAAC0B06D9AB8D79A45B72715AEB'')))
     = Inr (ascii ''025afa6566651f6c49d84a482a1af918b25ba7caac0b06d9ab8d79a45b72715aeb'')"
proof -
  have b: "toLowerCase stub_unicode_lower
         (ascii ''025AFA6566651F6C49D84A482A1AF918B25BA7CAAC0B06D9AB8D79A45B72715AEB'')
       = ascii ''025afa6566651f6c49d84a482a1af918b25ba7caac0b06d9ab8d79a45b72715aeb''"
    by code_simp
  have a: "map_sum id getPublicKey
     (new_TurnkeySigner Index_ts stub_unicode_lower
        (stub_config (stub_client (ascii ''00'') (ascii ''1'') (ascii ''2''))
           (ascii ''0x025AFA6566651F6C49D84A482A1AF918B25BA7CAAC0B06D9AB8D79A45B72715AEB'')))
     = Inr (ascii ''025AFA6566651F6C49D84A482A1AF918B25BA7CAAC0B06D9AB8D79A45B72715AEB'')"
    by (simp add: new_TurnkeySigner_def stub_config_def getPublicKey_def stub_validate_Index_ts
        del: validateCompressedPublicKey.simps)
  have c: "map_sum id getPublicKey
     (new_TurnkeySigner Part_000 stub_unicode_lower
        (stub_config (stub_client (ascii ''00'') (ascii ''1'') (ascii ''2''))
           (ascii ''0x025AFA6566651F6C49D84A482A1AF918B25BA7CAAC0B06D9AB8D79A45B72715AEB'')))
     = Inr (ascii ''025afa6566651f6c49d84a482a1af918b25ba7caac0b06d9ab8d79a45b72715aeb'')"
    by (simp add: stub_new getPublicKey_def stub_signer_def stub_key_def)
  show ?thesis by (rule conjI [OF a conjI [OF b c]])
qed

subsection \<open>The recovery byte\<close>

text \<open>
  C6, as the code has it. \<^verbatim>\<open>normalizeRecoveryByte\<close> fails, and then with
  \<open>InvalidRecoveryByte\<close>, exactly when \<^verbatim>\<open>parseInt(v, 16)\<close> is neither 0 nor 1 (NaN
  included); a string that parses to 0 gives \<^verbatim>\<open>00\<close> and one that parses to 1 gives
  \<^verbatim>\<open>01\<close>.
\<close>

theorem normalizeRecoveryByte_by_parsed_value:
  "(normalizeRecoveryByte v = Inl (InvalidRecoveryByte v))
      = (parseInt16 v \<noteq> Some 0 \<and> parseInt16 v \<noteq> Some 1)
   \<and> (normalizeRecoveryByte v = Inr (ascii ''00'')) = (parseInt16 v = Some 0)
   \<and> (normalizeRecoveryByte v = Inr (ascii ''01'')) = (parseInt16 v = Some 1)
   \<and> (\<forall>e. normalizeRecoveryByte v = Inl e \<longrightarrow> e = InvalidRecoveryByte v)"
  using normalizeRecoveryByte_cases [of v]
  by (cases "parseInt16 v = Some 0"; cases "parseInt16 v = Some 1") auto

theorem normalizeRecoveryByte_by_parsed_value_witness:
  "normalizeRecoveryByte (ascii ''2'') = Inl (InvalidRecoveryByte (ascii ''2''))
   \<and> normalizeRecoveryByte (ascii ''zz'') = Inl (InvalidRecoveryByte (ascii ''zz''))
   \<and> normalizeRecoveryByte (ascii ''00'') = Inr (ascii ''00'')
   \<and> normalizeRecoveryByte (ascii ''1'') = Inr (ascii ''01'')"
proof -
  have a: "normalizeRecoveryByte (ascii ''2'') = Inl (InvalidRecoveryByte (ascii ''2''))"
    unfolding normalizeRecoveryByte_by_parsed_value [of "ascii ''2''", THEN conjunct1]
    by (simp only: parse_examples) simp
  have b: "normalizeRecoveryByte (ascii ''zz'') = Inl (InvalidRecoveryByte (ascii ''zz''))"
    unfolding normalizeRecoveryByte_by_parsed_value [of "ascii ''zz''", THEN conjunct1]
    by (simp only: parse_examples) simp
  have c: "normalizeRecoveryByte (ascii ''00'') = Inr (ascii ''00'')"
    unfolding normalizeRecoveryByte_by_parsed_value [of "ascii ''00''", THEN conjunct2, THEN conjunct1]
    by (rule parse_examples)
  have d: "normalizeRecoveryByte (ascii ''1'') = Inr (ascii ''01'')"
    unfolding normalizeRecoveryByte_by_parsed_value
      [of "ascii ''1''", THEN conjunct2, THEN conjunct2, THEN conjunct1]
    by (rule parse_examples)
  show ?thesis by (rule conjI [OF a conjI [OF b conjI [OF c d]]])
qed

text \<open>
  C6 as stated fails: the string \<^verbatim>\<open>01\<close> is neither \<^verbatim>\<open>0\<close> nor \<^verbatim>\<open>1\<close>, and it is accepted.
\<close>

theorem normalizeRecoveryByte_accepts_two_digits:
  "ascii ''01'' \<noteq> ascii ''0'' \<and> ascii ''01'' \<noteq> ascii ''1''
   \<and> normalizeRecoveryByte (ascii ''01'') = Inr (ascii ''01'')"
  using normalizeRecoveryByte_cases [of "ascii ''01''"] by (simp add: parse_examples)

subsection \<open>A rejected signing call\<close>

text \<open>
  C8, as the code has it. Let \<^verbatim>\<open>signSTXTransfer\<close> get as far as the pre-sign hash, and
  let the client reject the signing request with \<open>e\<close>. Then \<^verbatim>\<open>signHash\<close> and
  \<^verbatim>\<open>signSTXTransfer\<close> fail, after that one request and no other. In \<^verbatim>\<open>src/index.ts\<close> the
  failure is \<open>e\<close> itself, always. In \<^verbatim>\<open>part_000\<close> it is \<open>e\<close> itself unless the
  message of \<open>e\<close> holds "Could not find any resource to sign with"; then it is a new
  error that carries the key, the organization of the signer and the message of \<open>e\<close>.
\<close>

theorem signSTXTransfer_signing_rejected:
  assumes build: "signSTXTransfer_build lib fetch this params = (t1, Inr b)"
    and rejected: "s_client this (signHash_request rvn this (b_preSignHash b)) = Inl e"
  shows "(let req = signHash_request rvn this (b_preSignHash b);
              thrown =
                (case rvn of
                   Index_ts \<Rightarrow> Thrown e
                 | Part_000 \<Rightarrow>
                     if includes_str (message_of e)
                          (ascii ''Could not find any resource to sign with'')
                     then SigningKeyNotFound (compressedPublicKey this) (s_organizationId this)
                            (message_of e)
                     else Thrown e)
          in signHash rvn this (b_preSignHash b) = ([SignRawPayload req], Inl thrown)
             \<and> signSTXTransfer rvn lib fetch this params = (t1 @ [SignRawPayload req], Inl thrown)
             \<and> signing_requests (fst (signSTXTransfer rvn lib fetch this params)) = [req])"
proof -
  have no: "signing_requests t1 = []"
    using build_trace_no_sign [of lib fetch this params] build by simp
  have c: "signHash_catch rvn this e =
                (case rvn of
                   Index_ts \<Rightarrow> Thrown e
                 | Part_000 \<Rightarrow>
                     if includes_str (message_of e)
                          (ascii ''Could not find any resource to sign with'')
                     then SigningKeyNotFound (compressedPublicKey this) (s_organizationId this)
                            (message_of e)
                     else Thrown e)"
    by (cases rvn) (simp_all add: Let_def)
  show ?thesis
    unfolding Let_def signSTXTransfer_after_build [OF build, of rvn] signHash_eq rejected c [symmetric]
    using no by simp
qed

lemma includes_examples:
  "includes_str (ascii ''Turnkey error 5: Could not find any resource to sign with: key'')
     (ascii ''Could not find any resource to sign with'')"
  "\<not> includes_str (ascii ''request timed out'')
     (ascii ''Could not find any resource to sign with'')"
  "includes_str (ascii ''Could not find any resource to sign with'')
     (ascii ''Could not find any resource to sign with'')"
  by code_simp+

theorem signSTXTransfer_signing_rejected_witness:
  "signSTXTransfer Part_000 stub_library (stub_fetch (JsonValue Undefined))
      (stub_signer (rejecting_client
         (ErrorInstance (ascii ''Turnkey error 5: Could not find any resource to sign with: key''))))
      (stub_params 1000000 (Some 5) (Some 200))
     = ([SignRawPayload
           \<lparr> organizationId = Some (ascii ''org-123''), signWith = stub_key,
             payload = ascii ''0xaabb'', encoding = ascii ''PAYLOAD_ENCODING_HEXADECIMAL'',
             hashFunction = ascii ''HASH_FUNCTION_NO_OP'' \<rparr>],
        Inl (SigningKeyNotFound stub_key (Some (ascii ''org-123''))
               (ascii ''Turnkey error 5: Could not find any resource to sign with: key'')))
   \<and> signSTXTransfer Part_000 stub_library (stub_fetch (JsonValue Undefined))
      (stub_signer (rejecting_client (ErrorInstance (ascii ''request timed out''))))
      (stub_params 1000000 (Some 5) (Some 200))
     = ([SignRawPayload
           \<lparr> organizationId = Some (ascii ''org-123''), signWith = stub_key,
             payload = ascii ''0xaabb'', encoding = ascii ''PAYLOAD_ENCODING_HEXADECIMAL'',
             hashFunction = ascii ''HASH_FUNCTION_NO_OP'' \<rparr>],
        Inl (Thrown (ErrorInstance (ascii ''request timed out''))))
   \<and> signSTXTransfer Index_ts stub_library (stub_fetch (JsonValue Undefined))
      (stub_signer (rejecting_client (ErrorInstance (ascii ''request timed out''))))
      (stub_params 1000000 (Some 5) (Some 200))
     = ([SignRawPayload
           \<lparr> organizationId = None, signWith = stub_key,
             payload = ascii ''0xaabb'', encoding = ascii ''PAYLOAD_ENCODING_HEXADECIMAL'',
             hashFunction = ascii ''HASH_FUNCTION_NO_OP'' \<rparr>],
        Inl (Thrown (ErrorInstance (ascii ''request timed out''))))"
proof -
  let ?fetch = "stub_fetch (JsonValue Undefined)"
  let ?e1 = "ErrorInstance (ascii ''Turnkey error 5: Could not find any resource to sign with: key'')"
  let ?e2 = "ErrorInstance (ascii ''request timed out'')"
  let ?b = "\<lparr> b_transaction =
         \<lparr> auth = \<lparr> authType = 4,
                    spendingCondition = \<lparr> sc_fee = 200, sc_nonce = 5, sc_signature = ([] :: jstring) \<rparr> \<rparr>,
           tx_rest = \<lparr> o_recipient = ascii ''ST2J6ZY7R94P80Z4CGFRHZ3Q16MF0NKHN3FK4R0N'',
                       o_amount = 1000000, o_publicKey = stub_key,
                       o_nonce = 5, o_fee = 200,
                       o_network = Testnet, o_memo = None \<rparr> \<rparr>,
        b_senderAddress = ascii ''ST'' @ stub_key,
        b_nonce = 5, b_txFee = 200, b_preSignHash = ascii ''aabb'' \<rparr>"
  have pos: "(0::int) < 1000000" by simp
  have build: "signSTXTransfer_build stub_library ?fetch (stub_signer c)
      (stub_params 1000000 (Some 5) (Some 200)) = ([], Inr ?b)" for c
    using stub_build [OF pos, of ?fetch c 5 "Some 200"] by simp
  have rej: "s_client (stub_signer (rejecting_client e))
      (signHash_request rvn (stub_signer (rejecting_client e)) (b_preSignHash ?b)) = Inl e" for e rvn
    by (simp add: stub_signer_def rejecting_client_def)
  have k: "compressedPublicKey (stub_signer c) = stub_key"
    "s_organizationId (stub_signer c) = Some (ascii ''org-123'')" for c
    by (simp_all add: stub_signer_def)
  have r1: "signSTXTransfer Part_000 stub_library ?fetch (stub_signer (rejecting_client ?e1))
      (stub_params 1000000 (Some 5) (Some 200))
     = ([SignRawPayload
           \<lparr> organizationId = Some (ascii ''org-123''), signWith = stub_key,
             payload = ascii ''0xaabb'', encoding = ascii ''PAYLOAD_ENCODING_HEXADECIMAL'',
             hashFunction = ascii ''HASH_FUNCTION_NO_OP'' \<rparr>],
        Inl (SigningKeyNotFound stub_key (Some (ascii ''org-123''))
               (ascii ''Turnkey error 5: Could not find any resource to sign with: key'')))"
    using signSTXTransfer_signing_rejected
      [OF build [of "rejecting_client ?e1"] rej [of ?e1 Part_000],
      unfolded Let_def, THEN conjunct2, THEN conjunct1]
    by (simp add: includes_examples k stub_signHash_request)
  have r2: "signSTXTransfer Part_000 stub_library ?fetch (stub_signer (rejecting_client ?e2))
      (stub_params 1000000 (Some 5) (Some 200))
     = ([SignRawPayload
           \<lparr> organizationId = Some (ascii ''org-123''), signWith = stub_key,
             payload = ascii ''0xaabb'', encoding = ascii ''PAYLOAD_ENCODING_HEXADECIMAL'',
             hashFunction = ascii ''HASH_FUNCTION_NO_OP'' \<rparr>],
        Inl (Thrown ?e2))"
    using signSTXTransfer_signing_rejected
      [OF build [of "rejecting_client ?e2"] rej [of ?e2 Part_000],
      unfolded Let_def, THEN conjunct2, THEN conjunct1]
    by (simp add: includes_examples k stub_signHash_request)
  have r3: "signSTXTransfer Index_ts stub_library ?fetch (stub_signer (rejecting_client ?e2))
      (stub_params 1000000 (Some 5) (Some 200))
     = ([SignRawPayload
           \<lparr> organizationId = None, signWith = stub_key,
             payload = ascii ''0xaabb'', encoding = ascii ''PAYLOAD_ENCODING_HEXADECIMAL'',
             hashFunction = ascii ''HASH_FUNCTION_NO_OP'' \<rparr>],
        Inl (Thrown ?e2))"
    using signSTXTransfer_signing_rejected
      [OF build [of "rejecting_client ?e2"] rej [of ?e2 Index_ts],
      unfolded Let_def, THEN conjunct2, THEN conjunct1]
    by (simp add: k stub_signHash_request)
  show ?thesis
    by (rule conjI [OF r1 conjI [OF r2 r3]])
qed

text \<open>
  C8 as stated fails on the first revision (\<^verbatim>\<open>src/index.ts\<close>), whose \<^verbatim>\<open>signHash\<close> has no
  catch block: the error of a key and organization mismatch leaves \<^verbatim>\<open>signHash\<close> and
  \<^verbatim>\<open>signSTXTransfer\<close> as the client threw it, with neither the key nor the organization
  added. On the same input the second revision throws the enriched error.
\<close>

theorem signHash_Index_ts_no_enrichment:
  "includes_str (message_of (ErrorInstance (ascii ''Could not find any resource to sign with'')))
      (ascii ''Could not find any resource to sign with'')
   \<and> snd (signHash Index_ts
        (stub_signer (rejecting_client
           (ErrorInstance (ascii ''Could not find any resource to sign with''))))
        (ascii ''aabb''))
     = Inl (Thrown (ErrorInstance (ascii ''Could not find any resource to sign with'')))
   \<and> snd (signSTXTransfer Index_ts stub_library (stub_fetch (JsonValue Undefined))
        (stub_signer (rejecting_client
           (ErrorInstance (ascii ''Could not find any resource to sign with''))))
        (stub_params 1000000 (Some 5) (Some 200)))
     = Inl (Thrown (ErrorInstance (ascii ''Could not find any resource to sign with'')))
   \<and> snd (signHash Part_000
        (stub_signer (rejecting_client
           (ErrorInstance (ascii ''Could not find any resource to sign with''))))
        (ascii ''aabb''))
     = Inl (SigningKeyNotFound stub_key (Some (ascii ''org-123''))
              (ascii ''Could not find any resource to sign with''))"
proof -
  let ?e = "ErrorInstance (ascii ''Could not find any resource to sign with'')"
  let ?signer = "stub_signer (rejecting_client ?e)"
  have i: "includes_str (message_of ?e) (ascii ''Could not find any resource to sign with'')"
    by (simp only: message_of.simps includes_examples)
  have pos: "(0::int) < 1000000" by simp
  have r: "s_client ?signer request = Inl ?e" for request
    by (simp add: stub_signer_def rejecting_client_def)
  have k: "compressedPublicKey (stub_signer c) = stub_key"
    "s_organizationId (stub_signer c) = Some (ascii ''org-123'')" for c
    by (simp_all add: stub_signer_def)
  have a: "snd (signHash Index_ts ?signer h) = Inl (Thrown ?e)" for h
    unfolding signHash_eq r by simp
  have b: "snd (signHash Part_000 ?signer (ascii ''aabb''))
     = Inl (SigningKeyNotFound stub_key (Some (ascii ''org-123''))
              (ascii ''Could not find any resource to sign with''))"
    unfolding signHash_eq r using i by (simp add: k Let_def)
  obtain bb where bb: "signSTXTransfer_build stub_library (stub_fetch (JsonValue Undefined)) ?signer
        (stub_params 1000000 (Some 5) (Some 200)) = ([], Inr bb)"
    using stub_build [OF pos] by blast
  have c: "snd (signSTXTransfer Index_ts stub_library (stub_fetch (JsonValue Undefined)) ?signer
        (stub_params 1000000 (Some 5) (Some 200)))
     = Inl (Thrown ?e)"
    unfolding signSTXTransfer_after_build [OF bb] r by simp
  show ?thesis
    by (rule conjI [OF i conjI [OF a conjI [OF c b]]])
qed

subsection \<open>Addresses\<close>

text \<open>
  Both address functions hand the validated key and the network (testnet when none is
  given to \<^verbatim>\<open>getAddressFromPublicKey\<close>, the signer's own when none is given to
  \<^verbatim>\<open>getAddress\<close>) to the library's \<^verbatim>\<open>publicKeyToAddress\<close>; what the address looks like
  is the library's doing.
\<close>

lemma getAddressFromPublicKey_delegates:
  assumes "validateCompressedPublicKey rvn unicode_lower publicKey = Inr cleaned"
  shows "getAddressFromPublicKey rvn unicode_lower lib publicKey network =
     (case publicKeyToAddress lib cleaned (case network of None \<Rightarrow> Testnet | Some n \<Rightarrow> n) of
        Inl e \<Rightarrow> Inl (Thrown e) | Inr a \<Rightarrow> Inr a)"
  using assms by (simp add: getAddressFromPublicKey_def)

lemma getAddress_delegates:
  "getAddress lib this (Some n) = publicKeyToAddress lib (getPublicKey this) n"
  "getAddress lib this None = publicKeyToAddress lib (getPublicKey this) (s_network this)"
  by (simp_all add: getAddress_def getPublicKey_def)

end
